theory Spec2Isabelle
  imports Complex_Main "HOL-Library.Word" "HOL-Library.Signed_Division"
begin

unbundle bit_operations_syntax

section \<open>Numbers and vectors\<close>

text \<open>
  The ray tracer computes in \<^verbatim>\<open>float\<close> and \<^verbatim>\<open>double\<close>. Both are modelled by
  \<^typ>\<open>real\<close>: every operation is exact, a literal denotes its decimal value, and a cast
  between the two is the identity. Rounding is outside the model, and so are infinities
  and NaN, but for the slab distances of the cube, which have a type of their own
  (\<open>xfloat\<close>, below): elsewhere a division by zero has HOL's value \<open>0\<close> where IEEE
  arithmetic gives an infinity or a NaN. The identifiers (\<^verbatim>\<open>int objIdx\<close>) are
  \<^typ>\<open>int\<close>; no arithmetic on them can overflow.
\<close>

text \<open>
  Modelled from the spec: the types \<^verbatim>\<open>float3\<close> and \<^verbatim>\<open>float4\<close> of the template's math
  header, which is not among the sources. The spec calls them 3-vectors; the sources read
  their components \<^verbatim>\<open>x\<close>, \<^verbatim>\<open>y\<close>, \<^verbatim>\<open>z\<close> (and \<^verbatim>\<open>w\<close>), here \<open>fx\<close>, \<open>fy\<close>, \<open>fz\<close>.
\<close>

datatype float3 = make_float3 (fx: real) (fy: real) (fz: real)

datatype float4 = make_float4 (f4x: real) (f4y: real) (f4z: real) (f4w: real)

text \<open>
  Modelled from the spec: the operators of \<^verbatim>\<open>float3\<close>, from the same header, with their
  componentwise meaning. \<open>a * b\<close> is the componentwise product, \<open>s *\<^sub>R a\<close> the product
  with a scalar (written \<^verbatim>\<open>s * a\<close> or \<^verbatim>\<open>a * s\<close> in the sources), and \<open>0\<close> is
  \<^verbatim>\<open>float3( 0 )\<close>.
\<close>

instantiation float3 :: "{zero, plus, minus, uminus, times, scaleR}"
begin

definition zero_float3 :: float3 where
  "zero_float3 = make_float3 0 0 0"

definition plus_float3 :: "float3 \<Rightarrow> float3 \<Rightarrow> float3" where
  "plus_float3 a b = make_float3 (fx a + fx b) (fy a + fy b) (fz a + fz b)"

definition minus_float3 :: "float3 \<Rightarrow> float3 \<Rightarrow> float3" where
  "minus_float3 a b = make_float3 (fx a - fx b) (fy a - fy b) (fz a - fz b)"

definition uminus_float3 :: "float3 \<Rightarrow> float3" where
  "uminus_float3 a = make_float3 (- fx a) (- fy a) (- fz a)"

definition times_float3 :: "float3 \<Rightarrow> float3 \<Rightarrow> float3" where
  "times_float3 a b = make_float3 (fx a * fx b) (fy a * fy b) (fz a * fz b)"

definition scaleR_float3 :: "real \<Rightarrow> float3 \<Rightarrow> float3" where
  "scaleR_float3 s a = make_float3 (s * fx a) (s * fy a) (s * fz a)"

instance ..

end

text \<open>
  Modelled from the spec: the constructor \<^verbatim>\<open>float3( s )\<close> of the math header, the same
  value in the three components (the spec's "zero vector" is \<^verbatim>\<open>float3( 0 )\<close>).
\<close>

definition float3_splat :: "real \<Rightarrow> float3" where
  "float3_splat s = make_float3 s s s"

text \<open>Modelled from the spec: \<^verbatim>\<open>dot\<close> of the math header, the dot product of the spec.\<close>

definition dot :: "float3 \<Rightarrow> float3 \<Rightarrow> real" where
  "dot a b = fx a * fx b + fy a * fy b + fz a * fz b"

text \<open>
  Modelled from the spec: \<^verbatim>\<open>length\<close> of the math header, the distance of the spec's
  direct illumination.
\<close>

definition length3 :: "float3 \<Rightarrow> real" where
  "length3 v = sqrt (dot v v)"

text \<open>Modelled from the spec: \<^verbatim>\<open>normalize\<close> of the math header, the vector scaled to unit length.\<close>

definition normalize :: "float3 \<Rightarrow> float3" where
  "normalize v = (1 / sqrt (dot v v)) *\<^sub>R v"

text \<open>
  Modelled from the spec: \<^verbatim>\<open>reflect\<close> of the math header, the mirror reflection of the
  direction \<open>i\<close> at a surface with normal \<open>n\<close>.
\<close>

definition reflect :: "float3 \<Rightarrow> float3 \<Rightarrow> float3" where
  "reflect i n = i - (2 * dot n i) *\<^sub>R n"

text \<open>Modelled from the spec: \<^verbatim>\<open>sqrf\<close> of the math header, the square.\<close>

definition sqrf :: "real \<Rightarrow> real" where
  "sqrf v = v * v"

text \<open>
  Modelled from the spec: the type \<^verbatim>\<open>mat4\<close> of the math header, the affine transform of
  the spec. A matrix is its sixteen cells, \<^verbatim>\<open>cell[0]\<close> to \<^verbatim>\<open>cell[15]\<close>, row by row, as
  \<^verbatim>\<open>Quad::Intersect\<close> reads them.
\<close>

type_synonym mat4 = "nat \<Rightarrow> real"

text \<open>Modelled from the spec: \<^verbatim>\<open>mat4::Identity()\<close> of the math header.\<close>

definition mat4_Identity :: mat4 where
  "mat4_Identity i = (if i = 0 \<or> i = 5 \<or> i = 10 \<or> i = 15 then 1 else 0)"

text \<open>
  Modelled from the spec: \<^verbatim>\<open>TransformPosition\<close> of the math header, which maps a point
  by an affine transform. \<^verbatim>\<open>Quad::Intersect\<close> holds an inlined copy of it (rows 0 to 2
  of the matrix, with the fourth cell of each row added).
\<close>

definition TransformPosition :: "float3 \<Rightarrow> mat4 \<Rightarrow> float3" where
  "TransformPosition V M = make_float3
     (M 0 * fx V + M 1 * fy V + M 2 * fz V + M 3)
     (M 4 * fx V + M 5 * fy V + M 6 * fz V + M 7)
     (M 8 * fx V + M 9 * fy V + M 10 * fz V + M 11)"

text \<open>
  Modelled from the spec: \<^verbatim>\<open>TransformVector\<close> of the math header, which maps a direction:
  the same without the translation. The comment in \<^verbatim>\<open>Quad::GetNormal\<close> gives its value at
  \<open>(0, -1, 0)\<close>.
\<close>

definition TransformVector :: "float3 \<Rightarrow> mat4 \<Rightarrow> float3" where
  "TransformVector V M = make_float3
     (M 0 * fx V + M 1 * fy V + M 2 * fz V)
     (M 4 * fx V + M 5 * fy V + M 6 * fz V)
     (M 8 * fx V + M 9 * fy V + M 10 * fz V)"

section \<open>Rays\<close>

text \<open>
  \<^verbatim>\<open>class Ray\<close> with \<^verbatim>\<open>SPEEDTRIX\<close> defined: \<^verbatim>\<open>d0\<close>, \<^verbatim>\<open>d1\<close> and \<^verbatim>\<open>d2\<close> are the fourth
  lanes of \<^verbatim>\<open>O4\<close>, \<^verbatim>\<open>D4\<close> and \<^verbatim>\<open>rD4\<close>.
\<close>

record Ray =
  ray_O :: float3
  ray_d0 :: real
  ray_D :: float3
  ray_d1 :: real
  ray_rD :: float3
  ray_d2 :: real
  ray_t :: real
  ray_objIdx :: int
  ray_inside :: bool

definition Ray_ctor :: "float3 \<Rightarrow> float3 \<Rightarrow> real \<Rightarrow> int \<Rightarrow> Ray" where
  "Ray_ctor origin direction distance idx =
     \<lparr>ray_O = origin, ray_d0 = 1,
      ray_D = direction, ray_d1 = 0,
      ray_rD = make_float3 (1 / fx direction) (1 / fy direction) (1 / fz direction), ray_d2 = 0,
      ray_t = distance, ray_objIdx = idx, ray_inside = False\<rparr>"

text \<open>The two defaulted arguments of the constructor.\<close>

definition Ray_new :: "float3 \<Rightarrow> float3 \<Rightarrow> Ray" where
  "Ray_new origin direction = Ray_ctor origin direction (10 ^ 34) (- 1)"

text \<open>The assignment \<^verbatim>\<open>ray.t = t, ray.objIdx = objIdx\<close> that every primitive ends in.\<close>

definition record_hit :: "Ray \<Rightarrow> real \<Rightarrow> int \<Rightarrow> Ray" where
  "record_hit ray t idx = ray\<lparr>ray_t := t, ray_objIdx := idx\<rparr>"

section \<open>Sphere\<close>

record Sphere =
  sphere_pos :: float3
  sphere_r2 :: real
  sphere_invr :: real
  sphere_objIdx :: int

definition Sphere_ctor :: "int \<Rightarrow> float3 \<Rightarrow> real \<Rightarrow> Sphere" where
  "Sphere_ctor idx p r = \<lparr>sphere_pos = p, sphere_r2 = r * r, sphere_invr = 1 / r, sphere_objIdx = idx\<rparr>"

definition Sphere_Intersect :: "Sphere \<Rightarrow> Ray \<Rightarrow> Ray" where
  "Sphere_Intersect s ray =
     (let oc = ray_O ray - sphere_pos s;
          b = dot oc (ray_D ray);
          c = dot oc oc - sphere_r2 s;
          d = b * b - c
      in if d \<le> 0 then ray
         else
           let d = sqrt d;
               t = - b - d
           in if t < ray_t ray \<and> t > 0 then record_hit ray t (sphere_objIdx s)
              else if c > 0 then ray
              else
                let t = d - b
                in if t < ray_t ray \<and> t > 0 then record_hit ray t (sphere_objIdx s)
                   else ray)"

definition Sphere_IsOccluded :: "Sphere \<Rightarrow> Ray \<Rightarrow> bool" where
  "Sphere_IsOccluded s ray =
     (let oc = ray_O ray - sphere_pos s;
          b = dot oc (ray_D ray);
          c = dot oc oc - sphere_r2 s;
          d = b * b - c
      in if d \<le> 0 then False
         else
           let d = sqrt d;
               t = - b - d
           in t < ray_t ray \<and> t > 0)"

definition Sphere_GetNormal :: "Sphere \<Rightarrow> float3 \<Rightarrow> float3" where
  "Sphere_GetNormal s I = sphere_invr s *\<^sub>R (I - sphere_pos s)"

definition Sphere_GetAlbedo :: "Sphere \<Rightarrow> float3 \<Rightarrow> float3" where
  "Sphere_GetAlbedo s I = float3_splat 0.93"

section \<open>Plane\<close>

record Plane =
  plane_N :: float3
  plane_d :: real
  plane_objIdx :: int

definition Plane_ctor :: "int \<Rightarrow> float3 \<Rightarrow> real \<Rightarrow> Plane" where
  "Plane_ctor idx normal d = \<lparr>plane_N = normal, plane_d = d, plane_objIdx = idx\<rparr>"

definition Plane_Intersect :: "Plane \<Rightarrow> Ray \<Rightarrow> Ray" where
  "Plane_Intersect p ray =
     (let t = - (dot (ray_O ray) (plane_N p) + plane_d p) / dot (ray_D ray) (plane_N p)
      in if t < ray_t ray \<and> t > 0 then record_hit ray t (plane_objIdx p) else ray)"

definition Plane_GetNormal :: "Plane \<Rightarrow> float3 \<Rightarrow> float3" where
  "Plane_GetNormal p I = plane_N p"

section \<open>Cube\<close>

text \<open>
  \<^verbatim>\<open>class Cube\<close> with \<^verbatim>\<open>SPEEDTRIX\<close> defined: \<^verbatim>\<open>b[0]\<close> and \<^verbatim>\<open>b[1]\<close> are the vectors
  \<^verbatim>\<open>bmin4\<close> and \<^verbatim>\<open>bmax4\<close>.
\<close>

record Cube =
  cube_bmin4 :: float4
  cube_bmax4 :: float4
  cube_M :: mat4
  cube_invM :: mat4
  cube_objIdx :: int

definition lane :: "float4 \<Rightarrow> nat \<Rightarrow> real" where
  "lane v i = (if i = 0 then f4x v else if i = 1 then f4y v else if i = 2 then f4z v else f4w v)"

text \<open>
  The slab distances of the cube are the one place where an infinity decides the result:
  for a ray that runs parallel to a pair of faces the reciprocal of the direction is
  infinite, both distances of that lane are infinite, and the lane drops out of the
  minimum and the maximum. The lanes are therefore values of \<open>xfloat\<close>: a real number, an
  infinity, or the NaN that the product of zero and an infinity is. The comparisons are
  IEEE's, false when a NaN takes part. The sign of a zero is outside the model: the
  reciprocal of zero is the positive infinity.
\<close>

datatype xfloat = NaN | NegInf | Finite real | PosInf

instantiation xfloat :: ord
begin

fun less_xfloat :: "xfloat \<Rightarrow> xfloat \<Rightarrow> bool" where
  "less_xfloat (Finite a) (Finite b) = (a < b)"
| "less_xfloat NegInf (Finite b) = True"
| "less_xfloat NegInf PosInf = True"
| "less_xfloat (Finite a) PosInf = True"
| "less_xfloat a b = False"

definition less_eq_xfloat :: "xfloat \<Rightarrow> xfloat \<Rightarrow> bool" where
  "less_eq_xfloat a b \<longleftrightarrow> a < b \<or> (a = b \<and> a \<noteq> NaN)"

instance ..

end

text \<open>The product of a real number and a lane value.\<close>

fun xmul :: "real \<Rightarrow> xfloat \<Rightarrow> xfloat" where
  "xmul a (Finite r) = Finite (a * r)"
| "xmul a PosInf = (if 0 < a then PosInf else if a < 0 then NegInf else NaN)"
| "xmul a NegInf = (if 0 < a then NegInf else if a < 0 then PosInf else NaN)"
| "xmul a NaN = NaN"

text \<open>
  The reciprocal of a lane of \<^verbatim>\<open>d4\<close>, by \<open>recip\<close> where the lane is not zero:
  \<^verbatim>\<open>_mm_div_ps\<close> of 1 and \<^verbatim>\<open>_mm_rcp_ps\<close> both give an infinity for a zero.
\<close>

definition xrecip :: "(real \<Rightarrow> real) \<Rightarrow> real \<Rightarrow> xfloat" where
  "xrecip recip d = (if d = 0 then PosInf else Finite (recip d))"

text \<open>
  \<^verbatim>\<open>_mm_min_ps( a, b )\<close> is \<^verbatim>\<open>a < b ? a : b\<close> and \<^verbatim>\<open>_mm_max_ps( a, b )\<close> is
  \<^verbatim>\<open>a > b ? a : b\<close>, in each lane: the second operand when a NaN takes part.
\<close>

definition mm_min_ps :: "xfloat \<Rightarrow> xfloat \<Rightarrow> xfloat" where
  "mm_min_ps a b = (if a < b then a else b)"

definition mm_max_ps :: "xfloat \<Rightarrow> xfloat \<Rightarrow> xfloat" where
  "mm_max_ps a b = (if b < a then a else b)"

text \<open>
  Modelled from the spec: \<^verbatim>\<open>min\<close> and \<^verbatim>\<open>max\<close> of two floats, from the template's
  headers, which are not among the sources: the smaller and the larger of the two (the
  spec's "per-axis min/max interval intersection"), taken as \<^verbatim>\<open>a < b ? a : b\<close> and
  \<^verbatim>\<open>a > b ? a : b\<close>.
\<close>

definition min_float :: "xfloat \<Rightarrow> xfloat \<Rightarrow> xfloat" where
  "min_float a b = (if a < b then a else b)"

definition max_float :: "xfloat \<Rightarrow> xfloat \<Rightarrow> xfloat" where
  "max_float a b = (if b < a then a else b)"

text \<open>
  The number that a lane value holds. It is read only under a test that the value lies
  between two real numbers.
\<close>

fun finite_val :: "xfloat \<Rightarrow> real" where
  "finite_val (Finite r) = r"
| "finite_val a = 0"

text \<open>
  The vector code that \<^verbatim>\<open>Cube::Intersect\<close> and \<^verbatim>\<open>Cube::IsOccluded\<close> share, lane \<open>i\<close>
  of it: the ray in object space (\<^verbatim>\<open>o4\<close>, \<^verbatim>\<open>d4\<close>), the reciprocal of its direction
  (\<^verbatim>\<open>rd4\<close>, by \<open>recip\<close>: \<^verbatim>\<open>_mm_div_ps\<close> of 1 in \<^verbatim>\<open>Intersect\<close>, \<^verbatim>\<open>_mm_rcp_ps\<close> in
  \<^verbatim>\<open>IsOccluded\<close>) and the two slab distances, returned as (\<^verbatim>\<open>vmin4\<close>, \<^verbatim>\<open>vmax4\<close>).
\<close>

definition Cube_slab :: "(real \<Rightarrow> real) \<Rightarrow> Cube \<Rightarrow> Ray \<Rightarrow> nat \<Rightarrow> xfloat \<times> xfloat" where
  "Cube_slab recip c ray i =
     (let m = cube_invM c;
          o4 = (fx (ray_O ray) * m (4 * i) + fy (ray_O ray) * m (4 * i + 1))
             + (fz (ray_O ray) * m (4 * i + 2) + ray_d0 ray * m (4 * i + 3));
          d4 = (fx (ray_D ray) * m (4 * i) + fy (ray_D ray) * m (4 * i + 1))
             + fz (ray_D ray) * m (4 * i + 2);
          rd4 = xrecip recip d4;
          t1 = xmul (lane (cube_bmin4 c) i - o4) rd4;
          t2 = xmul (lane (cube_bmax4 c) i - o4) rd4
      in (mm_min_ps t1 t2, mm_max_ps t1 t2))"

definition Cube_tmin :: "(real \<Rightarrow> real) \<Rightarrow> Cube \<Rightarrow> Ray \<Rightarrow> xfloat" where
  "Cube_tmin recip c ray =
     max_float (fst (Cube_slab recip c ray 0))
       (max_float (fst (Cube_slab recip c ray 1)) (fst (Cube_slab recip c ray 2)))"

definition Cube_tmax :: "(real \<Rightarrow> real) \<Rightarrow> Cube \<Rightarrow> Ray \<Rightarrow> xfloat" where
  "Cube_tmax recip c ray =
     min_float (snd (Cube_slab recip c ray 0))
       (min_float (snd (Cube_slab recip c ray 1)) (snd (Cube_slab recip c ray 2)))"

text \<open>
  The \<^verbatim>\<open>else\<close> of the source belongs to the inner \<^verbatim>\<open>if ( tmin > 0 )\<close>. A value that is
  stored in \<^verbatim>\<open>ray.t\<close> lies between 0 and \<^verbatim>\<open>ray.t\<close>, and is a real number.
\<close>

definition Cube_Intersect :: "Cube \<Rightarrow> Ray \<Rightarrow> Ray" where
  "Cube_Intersect c ray =
     (let tmax = Cube_tmax (\<lambda>d. 1 / d) c ray;
          tmin = Cube_tmin (\<lambda>d. 1 / d) c ray
      in if tmin < tmax then
           (if Finite 0 < tmin then
              (if tmin < Finite (ray_t ray) then record_hit ray (finite_val tmin) (cube_objIdx c)
               else ray)
            else if Finite 0 < tmax then
              (if tmax < Finite (ray_t ray) then record_hit ray (finite_val tmax) (cube_objIdx c)
               else ray)
            else ray)
         else ray)"

section \<open>Quad\<close>

record Quad =
  quad_size :: real
  quad_T :: mat4
  quad_invT :: mat4
  quad_objIdx :: int

definition Quad_Intersect :: "Quad \<Rightarrow> Ray \<Rightarrow> Ray" where
  "Quad_Intersect q ray =
     (let invT = quad_invT q; Ov = ray_O ray; Dv = ray_D ray; size = quad_size q;
          Oy = invT 4 * fx Ov + invT 5 * fy Ov + invT 6 * fz Ov + invT 7;
          Dy = invT 4 * fx Dv + invT 5 * fy Dv + invT 6 * fz Dv;
          t = Oy / - Dy
      in if t < ray_t ray \<and> t > 0 then
           (let Ox = invT 0 * fx Ov + invT 1 * fy Ov + invT 2 * fz Ov + invT 3;
                Oz = invT 8 * fx Ov + invT 9 * fy Ov + invT 10 * fz Ov + invT 11;
                Dx = invT 0 * fx Dv + invT 1 * fy Dv + invT 2 * fz Dv;
                Dz = invT 8 * fx Dv + invT 9 * fy Dv + invT 10 * fz Dv;
                Ix = Ox + t * Dx;
                Iz = Oz + t * Dz
            in if Ix > - size \<and> Ix < size \<and> Iz > - size \<and> Iz < size
               then record_hit ray t (quad_objIdx q) else ray)
         else ray)"

definition Quad_IsOccluded :: "Quad \<Rightarrow> Ray \<Rightarrow> bool" where
  "Quad_IsOccluded q ray =
     (let invT = quad_invT q; Ov = ray_O ray; Dv = ray_D ray; size = quad_size q;
          Oy = invT 4 * fx Ov + invT 5 * fy Ov + invT 6 * fz Ov + invT 7;
          Dy = invT 4 * fx Dv + invT 5 * fy Dv + invT 6 * fz Dv;
          t = Oy / - Dy
      in if t < ray_t ray \<and> t > 0 then
           (let Ox = invT 0 * fx Ov + invT 1 * fy Ov + invT 2 * fz Ov + invT 3;
                Oz = invT 8 * fx Ov + invT 9 * fy Ov + invT 10 * fz Ov + invT 11;
                Dx = invT 0 * fx Dv + invT 1 * fy Dv + invT 2 * fz Dv;
                Dz = invT 8 * fx Dv + invT 9 * fy Dv + invT 10 * fz Dv;
                Ix = Ox + t * Dx;
                Iz = Oz + t * Dz
            in Ix > - size \<and> Ix < size \<and> Iz > - size \<and> Iz < size)
         else False)"

definition Quad_GetNormal :: "Quad \<Rightarrow> float3 \<Rightarrow> float3" where
  "Quad_GetNormal q I = make_float3 (- quad_T q 1) (- quad_T q 5) (- quad_T q 9)"

definition Quad_GetAlbedo :: "Quad \<Rightarrow> float3 \<Rightarrow> float3" where
  "Quad_GetAlbedo q I = float3_splat 10"

section \<open>Torus\<close>

record Torus =
  torus_rt2 :: real
  torus_rc2 :: real
  torus_r2 :: real
  torus_objIdx :: int
  torus_T :: mat4
  torus_invT :: mat4

text \<open>The ray in the torus' space, as both \<^verbatim>\<open>Torus::Intersect\<close> and \<^verbatim>\<open>Torus::IsOccluded\<close> hardcode it.\<close>

definition Torus_O :: "Ray \<Rightarrow> float3" where
  "Torus_O ray = make_float3 (fx (ray_O ray) + 0.25)
     (0.707106829 * fy (ray_O ray) + 0.707106829 * fz (ray_O ray) - 1.41421366)
     (- 0.707106829 * fy (ray_O ray) + 0.707106829 * fz (ray_O ray) - 1.41421366)"

definition Torus_D :: "Ray \<Rightarrow> float3" where
  "Torus_D ray = make_float3 (fx (ray_D ray))
     (0.707106829 * fy (ray_D ray) + 0.707106829 * fz (ray_D ray))
     (- 0.707106829 * fy (ray_D ray) + 0.707106829 * fz (ray_D ray))"

text \<open>\<^verbatim>\<open>copysign( x, y )\<close>: the magnitude of \<open>x\<close> with the sign of \<open>y\<close>.\<close>

definition copysign :: "real \<Rightarrow> real \<Rightarrow> real" where
  "copysign v s = (if s < 0 then - \<bar>v\<bar> else \<bar>v\<bar>)"

text \<open>
  The root finder of \<^verbatim>\<open>Torus::Intersect\<close>, from its first line to the cast
  \<^verbatim>\<open>(float) t\<close>: the distance \<open>t\<close> it reaches the last test with, or \<open>None\<close> where it
  returns before.
\<close>

definition Torus_Intersect_t :: "Ray \<Rightarrow> real option" where
  "Torus_Intersect_t ray =
     (let Ov = Torus_O ray; Dv = Torus_D ray;
          po = (1 :: real);
          m = dot Ov Ov;
          k3 = dot Ov Dv;
          k32 = k3 * k3
      in if k32 < m - 1.10249984 then None
         else
           let k = (m - 0.0625 - 0.640000045) * 0.5;
               k2 = k32 + 0.640000045 * fz Dv * fz Dv + k;
               k1 = k * k3 + 0.640000045 * fz Ov * fz Dv;
               k0 = k * k + 0.640000045 * fz Ov * fz Ov - 0.640000045 * 0.0625;
               (po, k0, k1, k2, k3, k32) =
                 (if \<bar>k3 * (k32 - k2) + k1\<bar> < 0.0001 then
                    (let k0' = 1 / k0; k1' = k3 * k0'; k2' = k2 * k0'; k3' = k1 * k0'
                     in (- 1, k0', k1', k2', k3', k3' * k3'))
                  else (po, k0, k1, k2, k3, k32));
               c2 = 2 * k2 - 3 * k32;
               c1 = k3 * (k32 - k2) + k1;
               c0 = k3 * (k3 * (- 3 * k32 + 4 * k2) - 8 * k1) + 4 * k0;
               c2 = c2 * 0.33333333333;
               c1 = c1 * 2;
               c0 = c0 * 0.33333333333;
               Q = c2 * c2 + c0;
               R = 3 * c0 * c2 - c2 * c2 * c2 - c1 * c1;
               h = R * R - Q * Q * Q;
               z = (if h < 0 then
                      (let sQ = sqrt Q in 2 * sQ * cos (arccos (R / (sQ * Q)) * 0.33333333333))
                    else
                      (let sQ = root 3 (sqrt h + \<bar>R\<bar>) in copysign \<bar>sQ + Q / sQ\<bar> R));
               z = c2 - z;
               d1 = z - 3 * c2;
               d2 = z * z - 3 * c0
           in case (if \<bar>d1\<bar> < 0.00000001 then (if d2 < 0 then None else Some (d1, sqrt d2))
                    else (if d1 < 0 then None
                          else (let d1' = sqrt (d1 * 0.5) in Some (d1', c1 / d1')))) of
                None \<Rightarrow> None
              | Some (d1, d2) \<Rightarrow>
                 (let t = (10 ^ 20 :: real);
                      h = d1 * d1 - z + d2;
                      t = (if h > 0 then
                             (let h = sqrt h;
                                  t1 = - d1 - h - k3;
                                  t2 = - d1 + h - k3;
                                  t1 = (if po < 0 then 2 / t1 else t1);
                                  t2 = (if po < 0 then 2 / t2 else t2);
                                  t = (if t1 > 0 then t1 else t)
                              in if t2 > 0 then min t t2 else t)
                           else t);
                      h = d1 * d1 - z - d2;
                      t = (if h > 0 then
                             (let h = sqrt h;
                                  t1 = d1 - h - k3;
                                  t2 = d1 + h - k3;
                                  t1 = (if po < 0 then 2 / t1 else t1);
                                  t2 = (if po < 0 then 2 / t2 else t2);
                                  t = (if t1 > 0 then min t t1 else t)
                              in if t2 > 0 then min t t2 else t)
                           else t)
                  in Some t))"

definition Torus_Intersect :: "Torus \<Rightarrow> Ray \<Rightarrow> Ray" where
  "Torus_Intersect tor ray =
     (case Torus_Intersect_t ray of
        None \<Rightarrow> ray
      | Some t \<Rightarrow>
         (let ft = t
          in if ft > 0 \<and> ft < ray_t ray then record_hit ray ft (torus_objIdx tor) else ray))"

section \<open>What the sources do not hold\<close>

text \<open>
  The template's headers are not among the sources. What the scene and the renderer take
  from them, and from the hardware, is a parameter of the model: the constants
  \<^verbatim>\<open>EPSILON\<close>, \<^verbatim>\<open>MAXDEPTH\<close>, \<^verbatim>\<open>PI\<close> and \<^verbatim>\<open>INVPI\<close>, the matrix functions of
  \<^verbatim>\<open>mat4\<close>, the approximate reciprocal \<^verbatim>\<open>_mm_rcp_ps\<close> (one lane of it), and the pixels of
  the three textures that \<^verbatim>\<open>Plane::GetAlbedo\<close> loads.
\<close>

record tmpl8 =
  EPSILON :: real
  MAXDEPTH :: int
  PI :: real
  INVPI :: real
  mat4_RotateX :: "real \<Rightarrow> mat4"
  mat4_RotateY :: "real \<Rightarrow> mat4"
  mat4_RotateZ :: "real \<Rightarrow> mat4"
  mat4_Translate :: "float3 \<Rightarrow> mat4"
  mat4_mul :: "mat4 \<Rightarrow> mat4 \<Rightarrow> mat4"
  mat4_Inverted :: "mat4 \<Rightarrow> mat4"
  mat4_FastInvertedTransformNoScale :: "mat4 \<Rightarrow> mat4"
  rcp_ps :: "real \<Rightarrow> real"
  logo_pixels :: "nat \<Rightarrow> 32 word"
  red_pixels :: "nat \<Rightarrow> 32 word"
  blue_pixels :: "nat \<Rightarrow> 32 word"

text \<open>The cast \<^verbatim>\<open>(int) x\<close> truncates towards zero, and \<^verbatim>\<open>fmodf\<close> is built on it.\<close>

definition c_int :: "real \<Rightarrow> int" where
  "c_int v = (if 0 \<le> v then \<lfloor>v\<rfloor> else \<lceil>v\<rceil>)"

definition fmodf :: "real \<Rightarrow> real \<Rightarrow> real" where
  "fmodf v w = v - of_int (c_int (v / w)) * w"

section \<open>The other operations of the primitives\<close>

definition Cube_ctor :: "tmpl8 \<Rightarrow> int \<Rightarrow> float3 \<Rightarrow> float3 \<Rightarrow> mat4 \<Rightarrow> Cube" where
  "Cube_ctor E idx pos extent transform =
     (let lo = pos - 0.5 *\<^sub>R extent; hi = pos + 0.5 *\<^sub>R extent
      in \<lparr>cube_bmin4 = make_float4 (fx lo) (fy lo) (fz lo) 1,
          cube_bmax4 = make_float4 (fx hi) (fy hi) (fz hi) 1,
          cube_M = transform,
          cube_invM = mat4_FastInvertedTransformNoScale E transform,
          cube_objIdx = idx\<rparr>)"

definition Cube_IsOccluded :: "(real \<Rightarrow> real) \<Rightarrow> Cube \<Rightarrow> Ray \<Rightarrow> bool" where
  "Cube_IsOccluded rcp c ray =
     (let tmax = Cube_tmax rcp c ray;
          tmin = Cube_tmin rcp c ray
      in Finite 0 < tmax \<and> tmin < tmax \<and> tmin < Finite (ray_t ray))"

definition Cube_GetNormal :: "Cube \<Rightarrow> float3 \<Rightarrow> float3" where
  "Cube_GetNormal c I =
     (let objI = TransformPosition I (cube_invM c);
          N = make_float3 (- 1) 0 0;
          d0 = \<bar>fx objI - f4x (cube_bmin4 c)\<bar>;
          d1 = \<bar>fx objI - f4x (cube_bmax4 c)\<bar>;
          d2 = \<bar>fy objI - f4y (cube_bmin4 c)\<bar>;
          d3 = \<bar>fy objI - f4y (cube_bmax4 c)\<bar>;
          d4 = \<bar>fz objI - f4z (cube_bmin4 c)\<bar>;
          d5 = \<bar>fz objI - f4z (cube_bmax4 c)\<bar>;
          minDist = d0;
          (minDist, N) = (if d1 < minDist then (d1, make_float3 1 (fy N) (fz N)) else (minDist, N));
          (minDist, N) = (if d2 < minDist then (d2, make_float3 0 (- 1) 0) else (minDist, N));
          (minDist, N) = (if d3 < minDist then (d3, make_float3 0 1 0) else (minDist, N));
          (minDist, N) = (if d4 < minDist then (d4, make_float3 0 0 (- 1)) else (minDist, N));
          (minDist, N) = (if d5 < minDist then (d5, make_float3 0 0 1) else (minDist, N))
      in TransformVector N (cube_M c))"

definition Cube_GetAlbedo :: "Cube \<Rightarrow> float3 \<Rightarrow> float3" where
  "Cube_GetAlbedo c I = make_float3 1 1 1"

definition Quad_ctor :: "tmpl8 \<Rightarrow> int \<Rightarrow> real \<Rightarrow> mat4 \<Rightarrow> Quad" where
  "Quad_ctor E idx s transform =
     \<lparr>quad_size = s * 0.5, quad_T = transform,
      quad_invT = mat4_FastInvertedTransformNoScale E transform, quad_objIdx = idx\<rparr>"

definition Torus_ctor :: "int \<Rightarrow> real \<Rightarrow> real \<Rightarrow> Torus" where
  "Torus_ctor idx a b =
     \<lparr>torus_rt2 = b * b, torus_rc2 = a * a, torus_r2 = sqrf (a + b), torus_objIdx = idx,
      torus_T = mat4_Identity, torus_invT = mat4_Identity\<rparr>"

text \<open>
  \<^verbatim>\<open>Torus::IsOccluded\<close> repeats the root finder in single precision, with its own
  thresholds, and looks at the first root of each pair only.
\<close>

definition Torus_IsOccluded :: "Torus \<Rightarrow> Ray \<Rightarrow> bool" where
  "Torus_IsOccluded tor ray =
     (let Ov = Torus_O ray; Dv = Torus_D ray;
          po = (1 :: real);
          m = dot Ov Ov;
          k3 = dot Ov Dv;
          k32 = k3 * k3
      in if k32 < m - 1.10249984 then False
         else
           let k = (m - 0.0625 - 0.640000045) * 0.5;
               k2 = k32 + 0.640000045 * fz Dv * fz Dv + k;
               k1 = k * k3 + 0.640000045 * fz Ov * fz Dv;
               k0 = k * k + 0.640000045 * fz Ov * fz Ov - 0.640000045 * 0.0625;
               (po, k0, k1, k2, k3, k32) =
                 (if \<bar>k3 * (k32 - k2) + k1\<bar> < 0.01 then
                    (let k0' = 1 / k0; k1' = k3 * k0'; k2' = k2 * k0'; k3' = k1 * k0'
                     in (- 1, k0', k1', k2', k3', k3' * k3'))
                  else (po, k0, k1, k2, k3, k32));
               c2 = 2 * k2 - 3 * k32;
               c1 = k3 * (k32 - k2) + k1;
               c0 = k3 * (k3 * (- 3 * k32 + 4 * k2) - 8 * k1) + 4 * k0;
               c2 = c2 * 0.33333333333;
               c1 = c1 * 2;
               c0 = c0 * 0.33333333333;
               Q = c2 * c2 + c0;
               R = 3 * c0 * c2 - c2 * c2 * c2 - c1 * c1;
               h = R * R - Q * Q * Q;
               z = (if h < 0 then
                      (let sQ = sqrt Q in 2 * sQ * cos (arccos (R / (sQ * Q)) * 0.3333333))
                    else
                      (let sQ = root 3 (sqrt h + \<bar>R\<bar>) in copysign \<bar>sQ + Q / sQ\<bar> R));
               z = c2 - z;
               d1 = z - 3 * c2;
               d2 = z * z - 3 * c0
           in case (if \<bar>d1\<bar> < 0.0001 then (if d2 < 0 then None else Some (d1, sqrt d2))
                    else (if d1 < 0 then None
                          else (let d1' = sqrt (d1 * 0.5) in Some (d1', c1 / d1')))) of
                None \<Rightarrow> False
              | Some (d1, d2) \<Rightarrow>
                 (let h = d1 * d1 - z + d2
                  in if h > 0 \<and>
                        (let t1 = - d1 - sqrt h - k3;
                             t1 = (if po < 0 then 2 / t1 else t1)
                         in t1 > 0 \<and> t1 < ray_t ray)
                     then True
                     else
                       let h = d1 * d1 - z - d2
                       in if h > 0 \<and>
                             (let t1 = d1 - sqrt h - k3;
                                  t1 = (if po < 0 then 2 / t1 else t1)
                              in t1 > 0 \<and> t1 < ray_t ray)
                          then True
                          else False))"

text \<open>
  The root finder once more, cut in two after the line \<^verbatim>\<open>c0 *= 0.33333333333\<close>, so that
  each half can be reasoned about on its own. \<open>Torus_coeffs\<close> is the first half, which
  \<^verbatim>\<open>Torus::Intersect\<close> and \<^verbatim>\<open>Torus::IsOccluded\<close> share but for the threshold \<open>flip\<close> of the
  test before the swap, \<open>0.0001\<close> in the one and \<open>0.01\<close> in the other. \<open>Torus_Intersect_roots\<close>
  and \<open>Torus_IsOccluded_roots\<close> are the second halves, from the line \<^verbatim>\<open>Q = c2 * c2 + c0\<close>
  on. Lemmas \<open>Torus_Intersect_t_stages\<close> and \<open>Torus_IsOccluded_stages\<close> prove that
  \<open>Torus_Intersect_t\<close> and \<open>Torus_IsOccluded\<close> are the first half followed by the second.
\<close>

definition Torus_coeffs :: "real \<Rightarrow> Ray \<Rightarrow> (real \<times> real \<times> real \<times> real \<times> real) option" where
  "Torus_coeffs flip ray =
     (let Ov = Torus_O ray; Dv = Torus_D ray;
          po = (1 :: real);
          m = dot Ov Ov;
          k3 = dot Ov Dv;
          k32 = k3 * k3
      in if k32 < m - 1.10249984 then None
         else
           let k = (m - 0.0625 - 0.640000045) * 0.5;
               k2 = k32 + 0.640000045 * fz Dv * fz Dv + k;
               k1 = k * k3 + 0.640000045 * fz Ov * fz Dv;
               k0 = k * k + 0.640000045 * fz Ov * fz Ov - 0.640000045 * 0.0625;
               (po, k0, k1, k2, k3, k32) =
                 (if \<bar>k3 * (k32 - k2) + k1\<bar> < flip then
                    (let k0' = 1 / k0; k1' = k3 * k0'; k2' = k2 * k0'; k3' = k1 * k0'
                     in (- 1, k0', k1', k2', k3', k3' * k3'))
                  else (po, k0, k1, k2, k3, k32));
               c2 = 2 * k2 - 3 * k32;
               c1 = k3 * (k32 - k2) + k1;
               c0 = k3 * (k3 * (- 3 * k32 + 4 * k2) - 8 * k1) + 4 * k0;
               c2 = c2 * 0.33333333333;
               c1 = c1 * 2;
               c0 = c0 * 0.33333333333
           in Some (po, k3, c2, c1, c0))"

definition Torus_Intersect_roots :: "real \<Rightarrow> real \<Rightarrow> real \<Rightarrow> real \<Rightarrow> real \<Rightarrow> real option" where
  "Torus_Intersect_roots po k3 c2 c1 c0 =
          (let Q = c2 * c2 + c0;
               R = 3 * c0 * c2 - c2 * c2 * c2 - c1 * c1;
               h = R * R - Q * Q * Q;
               z = (if h < 0 then
                      (let sQ = sqrt Q in 2 * sQ * cos (arccos (R / (sQ * Q)) * 0.33333333333))
                    else
                      (let sQ = root 3 (sqrt h + \<bar>R\<bar>) in copysign \<bar>sQ + Q / sQ\<bar> R));
               z = c2 - z;
               d1 = z - 3 * c2;
               d2 = z * z - 3 * c0
           in case (if \<bar>d1\<bar> < 0.00000001 then (if d2 < 0 then None else Some (d1, sqrt d2))
                    else (if d1 < 0 then None
                          else (let d1' = sqrt (d1 * 0.5) in Some (d1', c1 / d1')))) of
                None \<Rightarrow> None
              | Some (d1, d2) \<Rightarrow>
                 (let t = (10 ^ 20 :: real);
                      h = d1 * d1 - z + d2;
                      t = (if h > 0 then
                             (let h = sqrt h;
                                  t1 = - d1 - h - k3;
                                  t2 = - d1 + h - k3;
                                  t1 = (if po < 0 then 2 / t1 else t1);
                                  t2 = (if po < 0 then 2 / t2 else t2);
                                  t = (if t1 > 0 then t1 else t)
                              in if t2 > 0 then min t t2 else t)
                           else t);
                      h = d1 * d1 - z - d2;
                      t = (if h > 0 then
                             (let h = sqrt h;
                                  t1 = d1 - h - k3;
                                  t2 = d1 + h - k3;
                                  t1 = (if po < 0 then 2 / t1 else t1);
                                  t2 = (if po < 0 then 2 / t2 else t2);
                                  t = (if t1 > 0 then min t t1 else t)
                              in if t2 > 0 then min t t2 else t)
                           else t)
                  in Some t))"

definition Torus_IsOccluded_roots :: "real \<Rightarrow> real \<Rightarrow> real \<Rightarrow> real \<Rightarrow> real \<Rightarrow> real \<Rightarrow> bool" where
  "Torus_IsOccluded_roots rt po k3 c2 c1 c0 =
          (let Q = c2 * c2 + c0;
               R = 3 * c0 * c2 - c2 * c2 * c2 - c1 * c1;
               h = R * R - Q * Q * Q;
               z = (if h < 0 then
                      (let sQ = sqrt Q in 2 * sQ * cos (arccos (R / (sQ * Q)) * 0.3333333))
                    else
                      (let sQ = root 3 (sqrt h + \<bar>R\<bar>) in copysign \<bar>sQ + Q / sQ\<bar> R));
               z = c2 - z;
               d1 = z - 3 * c2;
               d2 = z * z - 3 * c0
           in case (if \<bar>d1\<bar> < 0.0001 then (if d2 < 0 then None else Some (d1, sqrt d2))
                    else (if d1 < 0 then None
                          else (let d1' = sqrt (d1 * 0.5) in Some (d1', c1 / d1')))) of
                None \<Rightarrow> False
              | Some (d1, d2) \<Rightarrow>
                 (let h = d1 * d1 - z + d2
                  in if h > 0 \<and>
                        (let t1 = - d1 - sqrt h - k3;
                             t1 = (if po < 0 then 2 / t1 else t1)
                         in t1 > 0 \<and> t1 < rt)
                     then True
                     else
                       let h = d1 * d1 - z - d2
                       in if h > 0 \<and>
                             (let t1 = d1 - sqrt h - k3;
                                  t1 = (if po < 0 then 2 / t1 else t1)
                              in t1 > 0 \<and> t1 < rt)
                          then True
                          else False))"

text \<open>
  In \<^verbatim>\<open>Torus::GetNormal\<close> the scalar \<open>dot(L,L) - 0.0625\<close> has the vector
  \<open>0.640000045 * (1, 1, -1)\<close> subtracted from it, component by component.
\<close>

definition Torus_GetNormal :: "Torus \<Rightarrow> float3 \<Rightarrow> float3" where
  "Torus_GetNormal tor I =
     (let L = TransformPosition I (torus_invT tor);
          s = dot L L - 0.0625;
          v = 0.640000045 *\<^sub>R make_float3 1 1 (- 1);
          N = normalize (L * make_float3 (s - fx v) (s - fy v) (s - fz v))
      in TransformVector N (torus_T tor))"

definition Torus_GetAlbedo :: "Torus \<Rightarrow> float3 \<Rightarrow> float3" where
  "Torus_GetAlbedo tor I = float3_splat 1"

text \<open>A pixel \<^verbatim>\<open>0x00RRGGBB\<close> as a colour: \<^verbatim>\<open>float3( i3 ) * (1.0f / 255.0f)\<close>.\<close>

definition pixel_colour :: "32 word \<Rightarrow> float3" where
  "pixel_colour p =
     (1 / 255) *\<^sub>R make_float3 (real (unat (drop_bit 16 p AND 255)))
                              (real (unat (drop_bit 8 p AND 255)))
                              (real (unat (p AND 255)))"

definition Plane_GetAlbedo :: "tmpl8 \<Rightarrow> Plane \<Rightarrow> float3 \<Rightarrow> float3" where
  "Plane_GetAlbedo E p I =
     (if fy (plane_N p) = 1 then
        (let ix = c_int (fx I * 2 + 96.01);
             iz = c_int (fz I * 2 + 96.01);
             (ix, iz) = (if ix = 98 \<and> iz = 98 then (c_int (fx I * 32.01), c_int (fz I * 32.01))
                         else (ix, iz));
             (ix, iz) = (if ix = 94 \<and> iz = 98 then (c_int (fx I * 64.01), c_int (fz I * 64.01))
                         else (ix, iz))
         in float3_splat (if (ix + iz) AND 1 \<noteq> 0 then 1 else 0.3))
      else if fz (plane_N p) = - 1 then
        (let ix = c_int ((fx I + 4) * (128 / 8));
             iy = c_int ((2 - fy I) * (64 / 3))
         in pixel_colour (logo_pixels E (nat ((ix AND 127) + (iy AND 63) * 128))))
      else if fx (plane_N p) = 1 then
        (let ix = c_int ((fz I - 4) * (512 / 7));
             iy = c_int ((2 - fy I) * (512 / 3))
         in pixel_colour (red_pixels E (nat ((ix AND 511) + (iy AND 511) * 512))))
      else if fx (plane_N p) = - 1 then
        (let ix = c_int ((fz I - 4) * (512 / 7));
             iy = c_int ((2 - fy I) * (512 / 3))
         in pixel_colour (blue_pixels E (nat ((ix AND 511) + (iy AND 511) * 512))))
      else float3_splat 0.93)"

section \<open>Scene\<close>

text \<open>
  \<^verbatim>\<open>class Scene\<close> as the three switches at the top of the header configure it:
  \<^verbatim>\<open>SPEEDTRIX\<close>, \<^verbatim>\<open>FOURLIGHTS\<close> and \<^verbatim>\<open>USEBVH\<close> are defined. The arrays \<^verbatim>\<open>quad[4]\<close> and
  \<^verbatim>\<open>plane[6]\<close> are functions of the index; every read below checks the index first.
\<close>

record Scene =
  scene_animTime :: real
  scene_quad :: "nat \<Rightarrow> Quad"
  scene_sphere :: Sphere
  scene_sphere2 :: Sphere
  scene_cube :: Cube
  scene_plane :: "nat \<Rightarrow> Plane"
  scene_torus :: Torus

definition SetTime :: "tmpl8 \<Rightarrow> real \<Rightarrow> Scene \<Rightarrow> Scene" where
  "SetTime E t scn =
     (let animTime = t;
          M2base = mat4_mul E (mat4_RotateX E (PI E / 4)) (mat4_RotateZ E (PI E / 4));
          M2 = mat4_mul E
                 (mat4_mul E (mat4_Translate E (make_float3 1.8 0 2.5)) (mat4_RotateY E (animTime * 0.5)))
                 M2base;
          tm = 1 - sqrf (fmodf animTime 2 - 1)
      in scn\<lparr>scene_animTime := animTime,
             scene_cube := (scene_cube scn)\<lparr>cube_M := M2,
                                            cube_invM := mat4_FastInvertedTransformNoScale E M2\<rparr>,
             scene_sphere := (scene_sphere scn)\<lparr>sphere_pos := make_float3 (- 1.8) (- 0.4 + tm) 1\<rparr>\<rparr>)"

definition Scene_ctor :: "tmpl8 \<Rightarrow> Scene" where
  "Scene_ctor E =
     (let T = mat4_mul E (mat4_Translate E (make_float3 (- 0.25) 0 2)) (mat4_RotateX E (PI E / 4))
      in SetTime E 0
           \<lparr>scene_animTime = 0,
            scene_quad = (\<lambda>i. Quad_ctor E 0 0.5 mat4_Identity),
            scene_sphere = Sphere_ctor 1 (float3_splat 0) 0.6,
            scene_sphere2 = Sphere_ctor 2 (make_float3 0 2.5 (- 3.07)) 8,
            scene_cube = Cube_ctor E 3 (float3_splat 0) (float3_splat 1.15) mat4_Identity,
            scene_plane = (\<lambda>i.
              if i = 0 then Plane_ctor 4 (make_float3 1 0 0) 3
              else if i = 1 then Plane_ctor 5 (make_float3 (- 1) 0 0) 2.99
              else if i = 2 then Plane_ctor 6 (make_float3 0 1 0) 1
              else if i = 3 then Plane_ctor 7 (make_float3 0 (- 1) 0) 2
              else if i = 4 then Plane_ctor 8 (make_float3 0 0 1) 3
              else Plane_ctor 9 (make_float3 0 0 (- 1)) 3.99),
            scene_torus = (Torus_ctor 10 0.8 0.25)\<lparr>torus_T := T, torus_invT := mat4_Inverted E T\<rparr>\<rparr>)"

definition GetLightPos :: "Scene \<Rightarrow> float3" where
  "GetLightPos scn = float3_splat 0"

text \<open>
  \<^verbatim>\<open>RandomPointOnLight\<close>, split at its local variables: the index of the light, the
  renormalized \<^verbatim>\<open>r2\<close>, and the point. The cast \<^verbatim>\<open>(uint)\<close> of a value outside the range
  of the type, and a read outside \<^verbatim>\<open>quad[4]\<close>, are undefined in the source: \<open>None\<close>.
\<close>

definition lightIdx :: "real \<Rightarrow> int" where
  "lightIdx r0 = c_int (r0 * 4)"

definition RandomPointOnLight_r2 :: "real \<Rightarrow> real" where
  "RandomPointOnLight_r2 r0 =
     (let stratum = of_int (lightIdx r0) * 0.25
      in (r0 - stratum) / (1 - stratum))"

definition RandomPointOnLight :: "Scene \<Rightarrow> real \<Rightarrow> real \<Rightarrow> float3 option" where
  "RandomPointOnLight scn r0 r1 =
     (if lightIdx r0 < 0 \<or> 4 \<le> lightIdx r0 then None
      else
        let q = scene_quad scn (nat (lightIdx r0));
            r2 = RandomPointOnLight_r2 r0;
            size = quad_size q;
            corner1 = TransformPosition (make_float3 (- size) 0 (- size)) (quad_T q);
            corner2 = TransformPosition (make_float3 size 0 (- size)) (quad_T q);
            corner3 = TransformPosition (make_float3 (- size) 0 size) (quad_T q)
        in Some (corner1 + r2 *\<^sub>R (corner2 - corner1) + r1 *\<^sub>R (corner3 - corner1)))"

definition GetLightColor :: "Scene \<Rightarrow> float3" where
  "GetLightColor scn = make_float3 24 24 22"

subsection \<open>FindNearest\<close>

text \<open>The three macros for the walls.\<close>

definition PLANE_X :: "real \<Rightarrow> int \<Rightarrow> Ray \<Rightarrow> Ray" where
  "PLANE_X off i ray =
     (let t = - (fx (ray_O ray) + off) * fx (ray_rD ray)
      in if t < ray_t ray \<and> t > 0 then record_hit ray t i else ray)"

definition PLANE_Y :: "real \<Rightarrow> int \<Rightarrow> Ray \<Rightarrow> Ray" where
  "PLANE_Y off i ray =
     (let t = - (fy (ray_O ray) + off) * fy (ray_rD ray)
      in if t < ray_t ray \<and> t > 0 then record_hit ray t i else ray)"

definition PLANE_Z :: "real \<Rightarrow> int \<Rightarrow> Ray \<Rightarrow> Ray" where
  "PLANE_Z off i ray =
     (let t = - (fz (ray_O ray) + off) * fz (ray_rD ray)
      in if t < ray_t ray \<and> t > 0 then record_hit ray t i else ray)"

definition FindNearest_walls :: "Ray \<Rightarrow> Ray" where
  "FindNearest_walls ray =
     (let ray = (if fx (ray_D ray) < 0 then PLANE_X 3 4 ray else PLANE_X (- 2.99) 5 ray);
          ray = (if fy (ray_D ray) < 0 then PLANE_Y 1 6 ray else PLANE_Y (- 2) 7 ray)
      in if fz (ray_D ray) < 0 then PLANE_Z 3 8 ray else PLANE_Z (- 3.99) 9 ray)"

text \<open>
  The four lights, tested in one vector: \<^verbatim>\<open>tq4\<close> is the same in the four lanes, the
  xor with \<^verbatim>\<open>-0.0f\<close> negates \<^verbatim>\<open>ray.D.y\<close>, and lane \<open>i\<close> of \<^verbatim>\<open>Ix4\<close>, \<^verbatim>\<open>Iz4\<close> is the
  crossing point relative to light \<open>i\<close>. \<^verbatim>\<open>FindNearest\<close> and \<^verbatim>\<open>IsOccluded\<close> hold the same
  lines.
\<close>

definition lights_tq :: "Ray \<Rightarrow> real" where
  "lights_tq ray = (fy (ray_O ray) + - 1.5) / - fy (ray_D ray)"

definition lights_hitmask :: "Ray \<Rightarrow> nat \<Rightarrow> bool" where
  "lights_hitmask ray i =
     (let Ix = (fx (ray_O ray) + lane (make_float4 1 (- 1) (- 1) 1) i) + lights_tq ray * fx (ray_D ray);
          Iz = (fz (ray_O ray) + lane (make_float4 1 1 (- 1) (- 1)) i) + lights_tq ray * fz (ray_D ray)
      in (Ix > - 0.25 \<and> Ix < 0.25) \<and> (Iz > - 0.25 \<and> Iz < 0.25))"

definition lights_valmask :: "Ray \<Rightarrow> bool" where
  "lights_valmask ray = (lights_tq ray < ray_t ray \<and> lights_tq ray > 0)"

definition FindNearest_lights :: "Ray \<Rightarrow> Ray" where
  "FindNearest_lights ray =
     (let ft4 = (\<lambda>i. if lights_hitmask ray i \<and> lights_valmask ray then lights_tq ray else 10 ^ 34);
          ray = (if ft4 0 < ray_t ray then record_hit ray (ft4 0) 0 else ray);
          ray = (if ft4 1 < ray_t ray then record_hit ray (ft4 1) 0 else ray);
          ray = (if ft4 2 < ray_t ray then record_hit ray (ft4 2) 0 else ray)
      in if ft4 3 < ray_t ray then record_hit ray (ft4 3) 0 else ray)"

text \<open>The two hardcoded spheres; \<open>ro\<close> and \<open>rd\<close> are the prefetched origin and direction.\<close>

definition FindNearest_sphere :: "float3 \<Rightarrow> float3 \<Rightarrow> float3 \<Rightarrow> Ray \<Rightarrow> Ray" where
  "FindNearest_sphere spos ro rd ray =
     (let oc = ro - spos;
          b = dot oc rd;
          c = dot oc oc - 0.6 * 0.6;
          d = b * b - c
      in if d > 0 then
           (let t = - b - sqrt d
            in if t < ray_t ray \<and> t > 0 then record_hit ray t 1 else ray)
         else ray)"

definition FindNearest_sphere2 :: "float3 \<Rightarrow> float3 \<Rightarrow> Ray \<Rightarrow> Ray" where
  "FindNearest_sphere2 ro rd ray =
     (let oc = ro - make_float3 0 2.5 (- 3.07);
          b = dot oc rd;
          c = dot oc oc - 8 * 8;
          d = b * b - c
      in if d > 0 then
           (let t = sqrt d - b
            in if t < ray_t ray \<and> t > 0 then record_hit ray t 2 else ray)
         else ray)"

definition FindNearest :: "Scene \<Rightarrow> Ray \<Rightarrow> Ray" where
  "FindNearest scn ray =
     (let spos = sphere_pos (scene_sphere scn);
          ro = ray_O ray;
          rd = ray_D ray;
          ray = FindNearest_walls ray;
          ray = FindNearest_lights ray;
          ray = FindNearest_sphere spos ro rd ray;
          ray = FindNearest_sphere2 ro rd ray;
          ray = Cube_Intersect (scene_cube scn) ray
      in Torus_Intersect (scene_torus scn) ray)"

subsection \<open>IsOccluded\<close>

definition IsOccluded_sphere :: "Scene \<Rightarrow> Ray \<Rightarrow> bool" where
  "IsOccluded_sphere scn ray =
     (let oc = ray_O ray - sphere_pos (scene_sphere scn);
          b = dot oc (ray_D ray);
          c = dot oc oc - 0.6 * 0.6;
          d = b * b - c
      in if d > 0 then
           (let t = - b - sqrt d
            in t < ray_t ray \<and> t > 0)
         else False)"

definition IsOccluded_lights :: "Ray \<Rightarrow> bool" where
  "IsOccluded_lights ray =
     ((lights_hitmask ray 0 \<and> lights_valmask ray) \<or> (lights_hitmask ray 1 \<and> lights_valmask ray) \<or>
      (lights_hitmask ray 2 \<and> lights_valmask ray) \<or> (lights_hitmask ray 3 \<and> lights_valmask ray))"

definition Scene_IsOccluded :: "tmpl8 \<Rightarrow> Scene \<Rightarrow> Ray \<Rightarrow> bool" where
  "Scene_IsOccluded E scn ray =
     (if Cube_IsOccluded (rcp_ps E) (scene_cube scn) ray then True
      else if IsOccluded_sphere scn ray then True
      else if IsOccluded_lights ray then True
      else if Torus_IsOccluded (scene_torus scn) ray then True
      else False)"

subsection \<open>Shading data\<close>

text \<open>
  \<^verbatim>\<open>N[i] = v\<close> on a \<^verbatim>\<open>float3\<close>: the source has no check, and an index outside 0..2 is
  outside the vector. \<open>None\<close> stands for that.
\<close>

definition float3_set :: "float3 \<Rightarrow> int \<Rightarrow> real \<Rightarrow> float3 option" where
  "float3_set N i v =
     (if i = 0 then Some (make_float3 v (fy N) (fz N))
      else if i = 1 then Some (make_float3 (fx N) v (fz N))
      else if i = 2 then Some (make_float3 (fx N) (fy N) v)
      else None)"

text \<open>
  The normal \<^verbatim>\<open>N\<close> that \<^verbatim>\<open>Scene::GetNormal\<close> dispatches to, before it is turned to face
  the ray. The division of the source is C's, which truncates: \<open>sdiv\<close>.
\<close>

definition GetNormal_N :: "Scene \<Rightarrow> int \<Rightarrow> float3 \<Rightarrow> float3 option" where
  "GetNormal_N scn objIdx I =
     (if objIdx = 0 then Some (Quad_GetNormal (scene_quad scn 0) I)
      else if objIdx = 1 then Some (Sphere_GetNormal (scene_sphere scn) I)
      else if objIdx = 2 then Some (Sphere_GetNormal (scene_sphere2 scn) I)
      else if objIdx = 3 then Some (Cube_GetNormal (scene_cube scn) I)
      else if objIdx = 10 then Some (Torus_GetNormal (scene_torus scn) I)
      else float3_set (float3_splat 0) ((objIdx - 4) sdiv 2) (1 - 2 * of_int (objIdx AND 1)))"

definition GetNormal :: "Scene \<Rightarrow> int \<Rightarrow> float3 \<Rightarrow> float3 \<Rightarrow> float3 option" where
  "GetNormal scn objIdx I wo =
     (if objIdx = - 1 then Some (float3_splat 0)
      else case GetNormal_N scn objIdx I of
             None \<Rightarrow> None
           | Some N \<Rightarrow> Some (if dot N wo > 0 then - N else N))"

text \<open>\<^verbatim>\<open>plane[objIdx - 4]\<close> is a read outside the array unless \<open>4 \<le> objIdx \<le> 9\<close>.\<close>

definition GetAlbedo :: "tmpl8 \<Rightarrow> Scene \<Rightarrow> int \<Rightarrow> float3 \<Rightarrow> float3 option" where
  "GetAlbedo E scn objIdx I =
     (if objIdx = - 1 then Some (float3_splat 0)
      else if objIdx = 0 then Some (Quad_GetAlbedo (scene_quad scn 0) I)
      else if objIdx = 1 then Some (Sphere_GetAlbedo (scene_sphere scn) I)
      else if objIdx = 2 then Some (Sphere_GetAlbedo (scene_sphere2 scn) I)
      else if objIdx = 3 then Some (Cube_GetAlbedo (scene_cube scn) I)
      else if objIdx = 10 then Some (Torus_GetAlbedo (scene_torus scn) I)
      else if 0 \<le> objIdx - 4 \<and> objIdx - 4 < 6
        then Some (Plane_GetAlbedo E (scene_plane scn (nat (objIdx - 4))) I)
      else None)"

definition GetReflectivity :: "Scene \<Rightarrow> int \<Rightarrow> float3 \<Rightarrow> real" where
  "GetReflectivity scn objIdx I =
     (if objIdx = 1 then 1
      else if objIdx = 6 then 0.3
      else 0)"

definition GetRefractivity :: "Scene \<Rightarrow> int \<Rightarrow> float3 \<Rightarrow> real" where
  "GetRefractivity scn objIdx I = (if objIdx = 3 \<or> objIdx = 10 then 1.0 else 0.0)"

definition GetAbsorption :: "Scene \<Rightarrow> int \<Rightarrow> float3" where
  "GetAbsorption scn objIdx = (if objIdx = 3 then make_float3 0.5 0 0.5 else float3_splat 0)"

section \<open>Renderer\<close>

definition DirectIllumination :: "tmpl8 \<Rightarrow> Scene \<Rightarrow> float3 \<Rightarrow> float3 \<Rightarrow> float3" where
  "DirectIllumination E scn I N =
     (let irradiance = float3_splat 0;
          pointOnLight = GetLightPos scn;
          L = pointOnLight - I;
          distance = length3 L;
          L = (1 / distance) *\<^sub>R L;
          ndotl = dot N L
      in if ndotl < EPSILON E then float3_splat 0
         else
           let s = Ray_ctor (I + EPSILON E *\<^sub>R L) L (distance - 2 * EPSILON E) (- 1)
           in if \<not> Scene_IsOccluded E scn s then
                (let attenuation = 1 / (distance * distance);
                     in_radiance = attenuation *\<^sub>R GetLightColor scn
                 in dot N L *\<^sub>R in_radiance)
              else irradiance)"

text \<open>
  \<^verbatim>\<open>Renderer::Trace\<close>. The result is \<open>None\<close> where \<^verbatim>\<open>GetNormal\<close> or \<^verbatim>\<open>GetAlbedo\<close> would
  read outside an array. The recursion ends because \<open>depth\<close> grows towards
  \<^verbatim>\<open>MAXDEPTH\<close>.
\<close>

function Trace :: "tmpl8 \<Rightarrow> Scene \<Rightarrow> Ray \<Rightarrow> int \<Rightarrow> float3 option" where
  "Trace E scn ray0 depth =
     (let ray = FindNearest scn ray0
      in if ray_objIdx ray = - 1 then Some (float3_splat 0)
         else if depth > MAXDEPTH E then Some (float3_splat 0)
         else
           let I = ray_O ray + ray_t ray *\<^sub>R ray_D ray
           in case GetNormal scn (ray_objIdx ray) I (ray_D ray) of
                None \<Rightarrow> None
              | Some N \<Rightarrow>
                 (case GetAlbedo E scn (ray_objIdx ray) I of
                    None \<Rightarrow> None
                  | Some albedo \<Rightarrow>
                     (let out_radiance = float3_splat 0;
                          reflectivity = GetReflectivity scn (ray_objIdx ray) I;
                          refractivity = GetRefractivity scn (ray_objIdx ray) I;
                          diffuseness = 1 - (reflectivity + refractivity)
                      in case (if reflectivity > 0 then
                                 (let R = reflect (ray_D ray) N;
                                      r = Ray_new (I + EPSILON E *\<^sub>R R) R
                                  in case Trace E scn r (depth + 1) of
                                       None \<Rightarrow> None
                                     | Some traced \<Rightarrow>
                                        Some (out_radiance + (reflectivity *\<^sub>R albedo) * traced))
                               else Some out_radiance) of
                           None \<Rightarrow> None
                         | Some out_radiance \<Rightarrow>
                            (case (if refractivity > 0 then
                                     (let R = reflect (ray_D ray) N;
                                          r = Ray_new (I + EPSILON E *\<^sub>R R) R;
                                          n1 = (if ray_inside ray then 1.2 else 1);
                                          n2 = (if ray_inside ray then 1 else 1.2);
                                          eta = n1 / n2;
                                          cosi = dot (- ray_D ray) N;
                                          cost2 = 1.0 - eta * eta * (1 - cosi * cosi);
                                          Fr = (1 :: real)
                                      in case (if cost2 > 0 then
                                                 (let a = n1 - n2;
                                                      b = n1 + n2;
                                                      R0 = (a * a) / (b * b);
                                                      c = 1 - cosi;
                                                      Fr = R0 + (1 - R0) * (c * c * c * c * c);
                                                      T = eta *\<^sub>R ray_D ray
                                                        + (eta * cosi - sqrt \<bar>cost2\<bar>) *\<^sub>R N;
                                                      t = (Ray_new (I + EPSILON E *\<^sub>R T) T)
                                                            \<lparr>ray_inside := \<not> ray_inside ray\<rparr>
                                                  in case Trace E scn t (depth + 1) of
                                                       None \<Rightarrow> None
                                                     | Some traced \<Rightarrow>
                                                        Some (Fr, out_radiance
                                                                  + ((1 - Fr) *\<^sub>R albedo) * traced))
                                               else Some (Fr, out_radiance)) of
                                           None \<Rightarrow> None
                                         | Some (Fr, out_radiance) \<Rightarrow>
                                            (case Trace E scn r (depth + 1) of
                                               None \<Rightarrow> None
                                             | Some traced \<Rightarrow>
                                                Some (out_radiance + (Fr *\<^sub>R albedo) * traced)))
                                   else Some out_radiance) of
                               None \<Rightarrow> None
                             | Some out_radiance \<Rightarrow>
                                (let out_radiance =
                                       (if diffuseness > 0 then
                                          (let irradiance = DirectIllumination E scn I N;
                                               ambient = make_float3 0.2 0.2 0.2;
                                               brdf = INVPI E *\<^sub>R albedo
                                           in out_radiance
                                              + (diffuseness *\<^sub>R brdf) * (irradiance + ambient))
                                        else out_radiance);
                                     medium_scale = float3_splat 1;
                                     medium_scale =
                                       (if ray_inside ray then
                                          (let absorption = make_float3 0.5 0 0.5
                                           in make_float3 (exp (fx absorption * - ray_t ray))
                                                          (exp (fy absorption * - ray_t ray))
                                                          (exp (fz absorption * - ray_t ray)))
                                        else medium_scale)
                                 in Some (medium_scale * out_radiance))))))"
  by pat_completeness auto
termination
  by (relation "measure (\<lambda>(E, scn, ray0, depth). nat (MAXDEPTH E + 1 - depth))") auto

declare Trace.simps [simp del]

section \<open>A scene and rays to evaluate the model on\<close>

text \<open>
  The examples below run the model on this instance: \<^verbatim>\<open>EPSILON\<close> is a thousandth, the
  reciprocal is exact and the textures are black. The matrix functions are not called by
  any example; they are constant here.
\<close>

definition demo_tmpl8 :: tmpl8 where
  "demo_tmpl8 =
     \<lparr>EPSILON = 0.001, MAXDEPTH = 4,
      PI = 3.14159265358979323846264, INVPI = 0.31830988618379067153777,
      mat4_RotateX = (\<lambda>a. mat4_Identity), mat4_RotateY = (\<lambda>a. mat4_Identity),
      mat4_RotateZ = (\<lambda>a. mat4_Identity), mat4_Translate = (\<lambda>v. mat4_Identity),
      mat4_mul = (\<lambda>a b. mat4_Identity), mat4_Inverted = (\<lambda>a. mat4_Identity),
      mat4_FastInvertedTransformNoScale = (\<lambda>a. mat4_Identity),
      rcp_ps = (\<lambda>d. 1 / d),
      logo_pixels = (\<lambda>i. 0), red_pixels = (\<lambda>i. 0), blue_pixels = (\<lambda>i. 0)\<rparr>"

text \<open>The matrix of a translation: the identity with the offset in cells 3, 7 and 11.\<close>

definition translation :: "float3 \<Rightarrow> mat4" where
  "translation v i =
     (if i = 3 then fx v else if i = 7 then fy v else if i = 11 then fz v else mat4_Identity i)"

text \<open>
  The primitives as \<^verbatim>\<open>Scene()\<close> constructs them, with the ball where \<^verbatim>\<open>SetTime( 0 )\<close>
  puts it and the cube at its place \<open>(1.8, 0, 2.5)\<close>, not rotated.
\<close>

definition demo_scene :: Scene where
  "demo_scene =
     \<lparr>scene_animTime = 0,
      scene_quad = (\<lambda>i. \<lparr>quad_size = 0.25, quad_T = mat4_Identity, quad_invT = mat4_Identity,
                         quad_objIdx = 0\<rparr>),
      scene_sphere = (Sphere_ctor 1 (float3_splat 0) 0.6)\<lparr>sphere_pos := make_float3 (- 1.8) (- 0.4) 1\<rparr>,
      scene_sphere2 = Sphere_ctor 2 (make_float3 0 2.5 (- 3.07)) 8,
      scene_cube =
        \<lparr>cube_bmin4 = make_float4 (- 0.575) (- 0.575) (- 0.575) 1,
         cube_bmax4 = make_float4 0.575 0.575 0.575 1,
         cube_M = translation (make_float3 1.8 0 2.5),
         cube_invM = translation (make_float3 (- 1.8) 0 (- 2.5)),
         cube_objIdx = 3\<rparr>,
      scene_plane = (\<lambda>i.
        if i = 0 then Plane_ctor 4 (make_float3 1 0 0) 3
        else if i = 1 then Plane_ctor 5 (make_float3 (- 1) 0 0) 2.99
        else if i = 2 then Plane_ctor 6 (make_float3 0 1 0) 1
        else if i = 3 then Plane_ctor 7 (make_float3 0 (- 1) 0) 2
        else if i = 4 then Plane_ctor 8 (make_float3 0 0 1) 3
        else Plane_ctor 9 (make_float3 0 0 (- 1)) 3.99),
      scene_torus = Torus_ctor 10 0.8 0.25\<rparr>"

text \<open>The same scene with the cube around the origin.\<close>

definition demo_scene_centred :: Scene where
  "demo_scene_centred =
     demo_scene\<lparr>scene_cube := (scene_cube demo_scene)\<lparr>cube_M := mat4_Identity, cube_invM := mat4_Identity\<rparr>\<rparr>"

text \<open>A ray that starts outside the room, beyond three walls, and leaves.\<close>

definition escaping_ray :: Ray where
  "escaping_ray = Ray_new (make_float3 20 20 20) (make_float3 (2 / 3) (2 / 3) (1 / 3))"

text \<open>A ray from the centre of the ball as \<^verbatim>\<open>Scene()\<close> constructs it, and one from outside it.\<close>

definition ball :: Sphere where
  "ball = Sphere_ctor 1 (float3_splat 0) 0.6"

definition ray_from_centre :: Ray where
  "ray_from_centre = Ray_new (make_float3 0 0 0) (make_float3 (2 / 3) (1 / 3) (2 / 3))"

definition ray_from_outside :: Ray where
  "ray_from_outside =
     Ray_new (make_float3 (- 2 / 3) (- 1 / 3) (- 2 / 3)) (make_float3 (2 / 3) (1 / 3) (2 / 3))"

text \<open>A short ray that starts inside the centred cube.\<close>

definition short_ray_in_cube :: Ray where
  "short_ray_in_cube =
     Ray_ctor (make_float3 0 0 0) (make_float3 (2 / 3) (1 / 3) (2 / 3)) 0.1 (- 1)"

text \<open>A ray from the middle of the room up into the light at \<open>(1, 1.5, 1)\<close>.\<close>

definition ray_to_light :: Ray where
  "ray_to_light = Ray_new (make_float3 1 0 1) (make_float3 (1 / 10) 1 (- 1 / 10))"

text \<open>
  A point on the floor at distance 3 from the origin, and the shadow ray that
  \<^verbatim>\<open>DirectIllumination\<close> casts from it.
\<close>

definition shading_point :: float3 where
  "shading_point = make_float3 (- 2) (- 1) (- 2)"

definition shadow_ray :: Ray where
  "shadow_ray =
     Ray_ctor (shading_point + EPSILON demo_tmpl8 *\<^sub>R make_float3 (2 / 3) (1 / 3) (2 / 3))
       (make_float3 (2 / 3) (1 / 3) (2 / 3)) (3 - 2 * EPSILON demo_tmpl8) (- 1)"

text \<open>A ray from the origin down to the floor, and one from above the origin down into \<^verbatim>\<open>quad[0]\<close>.\<close>

definition floor_ray :: Ray where
  "floor_ray = Ray_new (make_float3 0 0 0) (make_float3 (2 / 3) (- 2 / 3) (1 / 3))"

definition quad_ray :: Ray where
  "quad_ray = Ray_new (make_float3 0 1 0) (make_float3 (1 / 10) (- 1) (1 / 10))"

text \<open>
  A ray along the x axis towards the centred cube: it runs parallel to two pairs of
  faces, so that two lanes of \<^verbatim>\<open>d4\<close> are zero. The same ray ending \<open>0.0005\<close> before the
  face \<open>x = -0.575\<close>, which it reaches at distance \<open>4.5\<close>, and ending \<open>0.0005\<close> behind it.
\<close>

definition axis_ray :: Ray where
  "axis_ray = Ray_ctor (make_float3 (- 5.075) 0 0) (make_float3 1 0 0) 100 (- 1)"

definition near_miss_ray :: Ray where
  "near_miss_ray = Ray_ctor (make_float3 (- 5.075) 0 0) (make_float3 1 0 0) 4.4995 (- 1)"

definition grazing_ray :: Ray where
  "grazing_ray = Ray_ctor (make_float3 (- 5.075) 0 0) (make_float3 1 0 0) 4.5005 (- 1)"

text \<open>
  Two reciprocals with a relative error of \<open>2\<^sup>-\<^sup>1\<^sup>2\<close>, within the \<open>1.5 * 2\<^sup>-\<^sup>1\<^sup>2\<close> that
  \<^verbatim>\<open>_mm_rcp_ps\<close> is documented to stay below: one too small, one too large.
\<close>

definition rcp_low :: "real \<Rightarrow> real" where
  "rcp_low d = (4095 / 4096) / d"

definition rcp_high :: "real \<Rightarrow> real" where
  "rcp_high d = (4097 / 4096) / d"

text \<open>
  A ray that starts inside the tube of the torus, on its centre circle: the point
  \<open>(0.55, 0, 2)\<close> is \<open>(0.8, 0, 0)\<close> in the space of the torus, up to \<open>2 * 10\<^sup>-\<^sup>9\<close>.
\<close>

definition tube_ray :: Ray where
  "tube_ray = Ray_new (make_float3 0.55 0 2) (make_float3 (7 / 9) (- 4 / 9) (4 / 9))"

text \<open>
  A ray from inside the room towards the rounded corner at the floor, on a line through
  the centre \<open>(0, 2.5, -3.07)\<close> of the corner sphere, at distance 2 from it.
\<close>

definition corner_ray :: Ray where
  "corner_ray = Ray_new (make_float3 (- 4 / 7) (23 / 14) (- 949 / 700))
     (make_float3 (- 2 / 7) (- 3 / 7) (6 / 7))"

section \<open>What an intersection may do to a ray\<close>

text \<open>
  \<open>hit_or_unchanged idx ray ray'\<close>: the ray \<open>ray'\<close> is \<open>ray\<close> itself, or it is \<open>ray\<close> with
  the identifier \<open>idx\<close> and a distance that is positive and below the one of \<open>ray\<close>.
\<close>

definition hit_or_unchanged :: "int \<Rightarrow> Ray \<Rightarrow> Ray \<Rightarrow> bool" where
  "hit_or_unchanged idx ray ray' \<longleftrightarrow>
     ray' = ray \<or>
     (0 < ray_t ray' \<and> ray_t ray' < ray_t ray \<and> ray' = record_hit ray (ray_t ray') idx)"

section \<open>Vector facts\<close>

lemmas float3_ops = zero_float3_def plus_float3_def minus_float3_def uminus_float3_def
  times_float3_def scaleR_float3_def float3_splat_def dot_def

lemma dot_uminus_left: "dot (- a) b = - dot a b"
  by (simp add: dot_def uminus_float3_def)

lemma sqrt_9: "sqrt 9 = 3"
  by (rule real_sqrt_unique) simp_all

lemma sqrt_9_25: "sqrt (9 / 25) = 3 / 5"
  by (rule real_sqrt_unique) (simp_all add: power2_eq_square)

lemma sqrt_64: "sqrt 64 = 8"
  by (rule real_sqrt_unique) (simp_all add: power2_eq_square)

lemma record_hit_neq: "t < ray_t ray \<Longrightarrow> record_hit ray t idx \<noteq> ray"
proof
  assume "t < ray_t ray" and "record_hit ray t idx = ray"
  from this(2) have "ray_t (record_hit ray t idx) = ray_t ray" by (rule arg_cong)
  with \<open>t < ray_t ray\<close> show False by (simp add: record_hit_def)
qed

section \<open>Lane values\<close>

lemmas xfloat_ops = xrecip_def mm_min_ps_def mm_max_ps_def min_float_def max_float_def

lemma xfloat_less_trans: "a < b \<Longrightarrow> b < c \<Longrightarrow> a < (c :: xfloat)"
  by (cases a; cases b; cases c) simp_all

lemma between_finite: "Finite 0 < a \<Longrightarrow> a < Finite t \<Longrightarrow> 0 < finite_val a \<and> finite_val a < t"
  by (cases a) simp_all

section \<open>The model on the example rays\<close>

lemma walls_escaping: "FindNearest_walls escaping_ray = escaping_ray"
  by (simp add: FindNearest_walls_def PLANE_X_def PLANE_Y_def PLANE_Z_def escaping_ray_def
      Ray_new_def Ray_ctor_def Let_def)

lemma lights_escaping: "FindNearest_lights escaping_ray = escaping_ray"
  by (simp add: FindNearest_lights_def lights_valmask_def lights_tq_def escaping_ray_def
      Ray_new_def Ray_ctor_def Let_def)

lemma sphere_escaping:
  "FindNearest_sphere (sphere_pos (scene_sphere demo_scene)) (ray_O escaping_ray) (ray_D escaping_ray)
     escaping_ray = escaping_ray"
  by (simp add: FindNearest_sphere_def demo_scene_def escaping_ray_def
      Ray_new_def Ray_ctor_def Let_def float3_ops)

lemma sphere2_escaping:
  "FindNearest_sphere2 (ray_O escaping_ray) (ray_D escaping_ray) escaping_ray = escaping_ray"
  by (simp add: FindNearest_sphere2_def escaping_ray_def
      Ray_new_def Ray_ctor_def Let_def float3_ops)

lemma cube_escaping: "Cube_Intersect (scene_cube demo_scene) escaping_ray = escaping_ray"
  by (simp add: Cube_Intersect_def Cube_tmin_def Cube_tmax_def Cube_slab_def lane_def xfloat_ops
      demo_scene_def translation_def mat4_Identity_def escaping_ray_def
      Ray_new_def Ray_ctor_def Let_def)

lemma torus_escaping: "Torus_Intersect (scene_torus demo_scene) escaping_ray = escaping_ray"
  by (simp add: Torus_Intersect_def Torus_Intersect_t_def Torus_O_def Torus_D_def
      escaping_ray_def Ray_new_def Ray_ctor_def float3_ops)

lemma FindNearest_escaping: "FindNearest demo_scene escaping_ray = escaping_ray"
  by (simp add: FindNearest_def Let_def walls_escaping lights_escaping sphere_escaping
      sphere2_escaping cube_escaping torus_escaping)

lemma walls_floor: "FindNearest_walls floor_ray = record_hit floor_ray (3 / 2) 6"
  by (simp add: FindNearest_walls_def PLANE_X_def PLANE_Y_def PLANE_Z_def floor_ray_def
      Ray_new_def Ray_ctor_def Let_def record_hit_def)

lemma lights_floor:
  "FindNearest_lights (record_hit floor_ray (3 / 2) 6) = record_hit floor_ray (3 / 2) 6"
  by (simp add: FindNearest_lights_def lights_valmask_def lights_tq_def floor_ray_def
      Ray_new_def Ray_ctor_def Let_def record_hit_def)

lemma sphere_floor:
  "FindNearest_sphere (sphere_pos (scene_sphere demo_scene)) (ray_O floor_ray) (ray_D floor_ray)
     (record_hit floor_ray (3 / 2) 6) = record_hit floor_ray (3 / 2) 6"
  by (simp add: FindNearest_sphere_def demo_scene_def floor_ray_def
      Ray_new_def Ray_ctor_def Let_def float3_ops record_hit_def)

lemma sphere2_floor:
  "FindNearest_sphere2 (ray_O floor_ray) (ray_D floor_ray)
     (record_hit floor_ray (3 / 2) 6) = record_hit floor_ray (3 / 2) 6"
proof -
  have "(419 / 100)\<^sup>2 \<le> (138903 / 2500 :: real)"
    by (simp add: power2_eq_square)
  then have "419 / 100 \<le> sqrt (138903 / 2500)"
    by (rule real_le_rsqrt)
  then show ?thesis
    by (simp add: FindNearest_sphere2_def floor_ray_def
        Ray_new_def Ray_ctor_def Let_def float3_ops record_hit_def)
qed

lemma cube_floor:
  "Cube_Intersect (scene_cube demo_scene) (record_hit floor_ray (3 / 2) 6)
     = record_hit floor_ray (3 / 2) 6"
  by (simp add: Cube_Intersect_def Cube_tmin_def Cube_tmax_def Cube_slab_def lane_def xfloat_ops
      demo_scene_def translation_def mat4_Identity_def floor_ray_def
      Ray_new_def Ray_ctor_def Let_def record_hit_def)

lemma torus_floor:
  "Torus_Intersect (scene_torus demo_scene) (record_hit floor_ray (3 / 2) 6)
     = record_hit floor_ray (3 / 2) 6"
  by (simp add: Torus_Intersect_def Torus_Intersect_t_def Torus_O_def Torus_D_def
      floor_ray_def Ray_new_def Ray_ctor_def float3_ops record_hit_def)

lemma FindNearest_floor: "FindNearest demo_scene floor_ray = record_hit floor_ray (3 / 2) 6"
  by (simp add: FindNearest_def Let_def walls_floor lights_floor sphere_floor
      sphere2_floor cube_floor torus_floor)

lemma sphere_hit_outside:
  "Sphere_Intersect ball ray_from_outside = record_hit ray_from_outside (2 / 5) 1"
  by (simp add: Sphere_Intersect_def ball_def Sphere_ctor_def ray_from_outside_def Ray_new_def
      Ray_ctor_def Let_def float3_ops sqrt_9_25)

lemma plane_hit_floor:
  "Plane_Intersect (scene_plane demo_scene 2) floor_ray = record_hit floor_ray (3 / 2) 6"
  by (simp add: Plane_Intersect_def demo_scene_def Plane_ctor_def floor_ray_def Ray_new_def
      Ray_ctor_def Let_def float3_ops)

lemma quad_hit:
  "Quad_Intersect (scene_quad demo_scene 0) quad_ray = record_hit quad_ray 1 0"
  by (simp add: Quad_Intersect_def demo_scene_def mat4_Identity_def quad_ray_def Ray_new_def
      Ray_ctor_def Let_def)

lemma shadow_ray_eq:
  "shadow_ray = \<lparr>ray_O = make_float3 (- 5998 / 3000) (- 2999 / 3000) (- 5998 / 3000), ray_d0 = 1,
      ray_D = make_float3 (2 / 3) (1 / 3) (2 / 3), ray_d1 = 0,
      ray_rD = make_float3 (3 / 2) 3 (3 / 2), ray_d2 = 0,
      ray_t = 2998 / 1000, ray_objIdx = - 1, ray_inside = False\<rparr>"
  by (simp add: shadow_ray_def Ray_ctor_def shading_point_def demo_tmpl8_def float3_ops)

lemma cube_hit_shadow:
  "Cube_Intersect (scene_cube demo_scene_centred) shadow_ray = record_hit shadow_ray (4273 / 2000) 3"
  by (simp add: shadow_ray_eq Cube_Intersect_def Cube_tmin_def Cube_tmax_def Cube_slab_def lane_def xfloat_ops
      demo_scene_centred_def demo_scene_def mat4_Identity_def Let_def)

lemma cube_clear: "\<not> Cube_IsOccluded (rcp_ps demo_tmpl8) (scene_cube demo_scene) shadow_ray"
  by (simp add: shadow_ray_eq Cube_IsOccluded_def Cube_tmin_def Cube_tmax_def Cube_slab_def lane_def xfloat_ops
      demo_scene_def demo_tmpl8_def translation_def mat4_Identity_def Let_def)

lemma cube_blocks:
  "Cube_IsOccluded (rcp_ps demo_tmpl8) (scene_cube demo_scene_centred) shadow_ray"
  by (simp add: shadow_ray_eq Cube_IsOccluded_def Cube_tmin_def Cube_tmax_def Cube_slab_def lane_def xfloat_ops
      demo_scene_centred_def demo_scene_def demo_tmpl8_def mat4_Identity_def Let_def)

text \<open>
  A ray that runs parallel to two pairs of faces: the two lanes are infinite and drop
  out of the minimum and the maximum.
\<close>

lemma cube_hit_axis:
  "Cube_Intersect (scene_cube demo_scene_centred) axis_ray = record_hit axis_ray (9 / 2) 3"
  by (simp add: Cube_Intersect_def Cube_tmin_def Cube_tmax_def Cube_slab_def lane_def xfloat_ops
      demo_scene_centred_def demo_scene_def mat4_Identity_def axis_ray_def Ray_ctor_def Let_def)

lemma cube_occluded_axis:
  "Cube_IsOccluded (\<lambda>d. 1 / d) (scene_cube demo_scene_centred) axis_ray"
  by (simp add: Cube_IsOccluded_def Cube_tmin_def Cube_tmax_def Cube_slab_def lane_def xfloat_ops
      demo_scene_centred_def demo_scene_def mat4_Identity_def axis_ray_def Ray_ctor_def Let_def)

lemma sphere_clear: "\<not> IsOccluded_sphere demo_scene shadow_ray"
  by (simp add: shadow_ray_eq IsOccluded_sphere_def demo_scene_def Sphere_ctor_def Let_def float3_ops)

lemma lights_clear: "\<not> IsOccluded_lights shadow_ray"
  by (simp add: shadow_ray_eq IsOccluded_lights_def lights_valmask_def lights_tq_def)

lemma torus_clear: "\<not> Torus_IsOccluded (scene_torus demo_scene) shadow_ray"
  by (simp add: shadow_ray_eq Torus_IsOccluded_def Torus_O_def Torus_D_def float3_ops)

lemma shadow_ray_clear: "\<not> Scene_IsOccluded demo_tmpl8 demo_scene shadow_ray"
  by (simp add: Scene_IsOccluded_def cube_clear sphere_clear lights_clear torus_clear)

lemma shadow_ray_blocked: "Scene_IsOccluded demo_tmpl8 demo_scene_centred shadow_ray"
  by (simp add: Scene_IsOccluded_def cube_blocks)

section \<open>Intersections record nearer, positive hits only\<close>

lemma hit_or_unchanged_refl: "hit_or_unchanged idx ray ray"
  by (simp add: hit_or_unchanged_def)

lemma hit_or_unchanged_record:
  "0 < t \<Longrightarrow> t < ray_t ray \<Longrightarrow> hit_or_unchanged idx ray (record_hit ray t idx)"
  by (simp add: hit_or_unchanged_def record_hit_def)

lemma hit_or_unchanged_le: "hit_or_unchanged idx ray ray' \<Longrightarrow> ray_t ray' \<le> ray_t ray"
  by (auto simp: hit_or_unchanged_def)

lemma hit_or_unchanged_pos:
  assumes "hit_or_unchanged idx ray ray'" and "ray' \<noteq> ray"
  shows "0 < ray_t ray' \<and> ray_objIdx ray' = idx"
proof -
  from assms have pos: "0 < ray_t ray'" and eq: "ray' = record_hit ray (ray_t ray') idx"
    by (auto simp: hit_or_unchanged_def)
  from eq have "ray_objIdx ray' = ray_objIdx (record_hit ray (ray_t ray') idx)"
    by (rule arg_cong)
  then have "ray_objIdx ray' = idx"
    by (simp add: record_hit_def)
  with pos show ?thesis ..
qed

lemma Sphere_Intersect_hit: "hit_or_unchanged (sphere_objIdx s) ray (Sphere_Intersect s ray)"
  by (simp add: Sphere_Intersect_def Let_def hit_or_unchanged_refl hit_or_unchanged_record)

lemma Plane_Intersect_hit: "hit_or_unchanged (plane_objIdx p) ray (Plane_Intersect p ray)"
  by (simp add: Plane_Intersect_def Let_def hit_or_unchanged_refl hit_or_unchanged_record)

lemma Cube_Intersect_hit: "hit_or_unchanged (cube_objIdx c) ray (Cube_Intersect c ray)"
  by (simp add: Cube_Intersect_def Let_def hit_or_unchanged_refl hit_or_unchanged_record
      between_finite)

lemma Quad_Intersect_hit: "hit_or_unchanged (quad_objIdx q) ray (Quad_Intersect q ray)"
  by (simp add: Quad_Intersect_def Let_def hit_or_unchanged_refl hit_or_unchanged_record)

lemma Torus_Intersect_hit: "hit_or_unchanged (torus_objIdx tor) ray (Torus_Intersect tor ray)"
  by (simp add: Torus_Intersect_def Let_def hit_or_unchanged_refl hit_or_unchanged_record
      split: option.split)

text \<open>
  Claim C1. Each of the five \<^verbatim>\<open>Intersect\<close> functions returns the ray it was given, or
  that ray with the primitive's identifier and a distance \<open>t\<close> with \<open>0 < t\<close> and \<open>t\<close> below the
  ray's previous distance. So the distance never increases, and a ray that was changed
  carries a positive distance.
\<close>

theorem Intersect_hit_or_unchanged:
  "hit_or_unchanged (sphere_objIdx s) ray (Sphere_Intersect s ray) \<and>
   hit_or_unchanged (plane_objIdx p) ray (Plane_Intersect p ray) \<and>
   hit_or_unchanged (cube_objIdx c) ray (Cube_Intersect c ray) \<and>
   hit_or_unchanged (quad_objIdx q) ray (Quad_Intersect q ray) \<and>
   hit_or_unchanged (torus_objIdx tor) ray (Torus_Intersect tor ray) \<and>
   ray_t (Sphere_Intersect s ray) \<le> ray_t ray \<and>
   ray_t (Plane_Intersect p ray) \<le> ray_t ray \<and>
   ray_t (Cube_Intersect c ray) \<le> ray_t ray \<and>
   ray_t (Quad_Intersect q ray) \<le> ray_t ray \<and>
   ray_t (Torus_Intersect tor ray) \<le> ray_t ray"
  using Sphere_Intersect_hit [of s ray] Plane_Intersect_hit [of p ray]
    Cube_Intersect_hit [of c ray] Quad_Intersect_hit [of q ray] Torus_Intersect_hit [of tor ray]
  by (simp add: hit_or_unchanged_le)

theorem Intersect_hit_or_unchanged_witness:
  "Sphere_Intersect ball ray_from_outside = record_hit ray_from_outside (2 / 5) 1 \<and>
   Plane_Intersect (scene_plane demo_scene 2) floor_ray = record_hit floor_ray (3 / 2) 6 \<and>
   Cube_Intersect (scene_cube demo_scene_centred) shadow_ray = record_hit shadow_ray (4273 / 2000) 3 \<and>
   Quad_Intersect (scene_quad demo_scene 0) quad_ray = record_hit quad_ray 1 0 \<and>
   Torus_Intersect (scene_torus demo_scene) escaping_ray = escaping_ray \<and>
   hit_or_unchanged 1 ray_from_outside (record_hit ray_from_outside (2 / 5) 1) \<and>
   hit_or_unchanged 3 shadow_ray (record_hit shadow_ray (4273 / 2000) 3)"
proof -
  have s: "sphere_objIdx ball = 1"
    by (simp add: ball_def Sphere_ctor_def)
  have c: "cube_objIdx (scene_cube demo_scene_centred) = 3"
    by (simp add: demo_scene_centred_def demo_scene_def)
  from Intersect_hit_or_unchanged [of ball ray_from_outside]
  have "hit_or_unchanged 1 ray_from_outside (record_hit ray_from_outside (2 / 5) 1)"
    by (simp add: s sphere_hit_outside)
  moreover
  from Intersect_hit_or_unchanged [of _ shadow_ray _ "scene_cube demo_scene_centred"]
  have "hit_or_unchanged 3 shadow_ray (record_hit shadow_ray (4273 / 2000) 3)"
    by (simp add: c cube_hit_shadow)
  ultimately show ?thesis
    by (simp add: sphere_hit_outside plane_hit_floor cube_hit_shadow quad_hit torus_escaping)
qed

section \<open>The root finder of the torus, half by half\<close>

lemma case_option_Let: "case_option n f (Let a g) = Let a (\<lambda>x. case_option n f (g x))"
  by (simp add: Let_def)

lemma case_option_if:
  "case_option n f (if c then x else y) = (if c then case_option n f x else case_option n f y)"
  by simp

lemma case_option_case_prod:
  "case_option n f (case_prod g p) = case_prod (\<lambda>a b. case_option n f (g a b)) p"
  by (cases p) simp

lemma Torus_Intersect_t_stages:
  "Torus_Intersect_t ray =
     (case Torus_coeffs 0.0001 ray of
        None \<Rightarrow> None
      | Some (po, k3, c2, c1, c0) \<Rightarrow> Torus_Intersect_roots po k3 c2 c1 c0)"
  unfolding Torus_Intersect_t_def Torus_coeffs_def
  by (simp only: case_option_Let case_option_if case_option_case_prod option.case prod.case
      Torus_Intersect_roots_def)

lemma Torus_IsOccluded_stages:
  "Torus_IsOccluded tor ray =
     (case Torus_coeffs 0.01 ray of
        None \<Rightarrow> False
      | Some (po, k3, c2, c1, c0) \<Rightarrow> Torus_IsOccluded_roots (ray_t ray) po k3 c2 c1 c0)"
  unfolding Torus_IsOccluded_def Torus_coeffs_def
  by (simp only: case_option_Let case_option_if case_option_case_prod option.case prod.case
      Torus_IsOccluded_roots_def)

text \<open>
  The path that both second halves take when the resolvent has one real root, found in
  the branch of the cube root (\<open>h \<ge> 0\<close>, \<open>R < 0\<close>), \<open>d1\<close> is above both thresholds, the first
  pair of roots is complex (\<open>h1 \<le> 0\<close>), and the second pair has a root \<open>t1 \<le> 0\<close> and a root
  \<open>t2 > 0\<close>: \<^verbatim>\<open>Torus::Intersect\<close> ends with \<open>t2\<close>, and \<^verbatim>\<open>Torus::IsOccluded\<close>, which looks at
  \<open>t1\<close> only, with \<^verbatim>\<open>false\<close>.
\<close>

lemma Torus_Intersect_roots_second_pair:
  assumes "c2 * c2 + c0 = Q"
    and "3 * c0 * c2 - c2 * c2 * c2 - c1 * c1 = R"
    and "R * R - Q * Q * Q = h"
    and "\<not> h < 0"
    and "root 3 (sqrt h + \<bar>R\<bar>) = sQ"
    and "R < 0"
    and "c2 - - \<bar>\<bar>sQ + Q / sQ\<bar>\<bar> = z"
    and "z - 3 * c2 = d1"
    and "\<not> \<bar>d1\<bar> < 0.00000001"
    and "\<not> d1 < 0"
    and "sqrt (d1 * 0.5) = p"
    and "c1 / p = q"
    and "p * p - z + q = h1"
    and "\<not> 0 < h1"
    and "p * p - z - q = h2"
    and "0 < h2"
    and "sqrt h2 = s"
    and "\<not> po < 0"
    and "p - s - k3 = t1"
    and "\<not> 0 < t1"
    and "p + s - k3 = t2"
    and "0 < t2"
  shows "Torus_Intersect_roots po k3 c2 c1 c0 = Some (min (10 ^ 20) t2)"
  using assms
  by (simp only: Torus_Intersect_roots_def copysign_def Let_def if_True if_False option.case prod.case)

lemma Torus_IsOccluded_roots_second_pair:
  assumes "c2 * c2 + c0 = Q"
    and "3 * c0 * c2 - c2 * c2 * c2 - c1 * c1 = R"
    and "R * R - Q * Q * Q = h"
    and "\<not> h < 0"
    and "root 3 (sqrt h + \<bar>R\<bar>) = sQ"
    and "R < 0"
    and "c2 - - \<bar>\<bar>sQ + Q / sQ\<bar>\<bar> = z"
    and "z - 3 * c2 = d1"
    and "\<not> \<bar>d1\<bar> < 0.0001"
    and "\<not> d1 < 0"
    and "sqrt (d1 * 0.5) = p"
    and "c1 / p = q"
    and "p * p - z + q = h1"
    and "\<not> 0 < h1"
    and "p * p - z - q = h2"
    and "sqrt h2 = s"
    and "\<not> po < 0"
    and "p - s - k3 = t1"
    and "\<not> 0 < t1"
  shows "\<not> Torus_IsOccluded_roots rt po k3 c2 c1 c0"
  using assms
  by (simp only: Torus_IsOccluded_roots_def copysign_def Let_def if_True if_False option.case prod.case
      simp_thms if_cancel)

subsection \<open>Intervals\<close>

lemma sq_bounds:
  fixes x :: real
  assumes "0 \<le> l" "l \<le> x" "x \<le> u"
  shows "l * l \<le> x * x" "x * x \<le> u * u"
  using assms by (auto intro!: mult_mono)

lemma cube_bounds:
  fixes x :: real
  assumes "0 \<le> l" "l \<le> x" "x \<le> u"
  shows "l * l * l \<le> x * x * x" "x * x * x \<le> u * u * u"
  using assms by (auto intro!: mult_mono)

lemma div_bounds:
  fixes n d :: real
  assumes "0 \<le> nl" "nl \<le> n" "n \<le> nu" "0 < dl" "dl \<le> d" "d \<le> du"
  shows "nl / du \<le> n / d" "n / d \<le> nu / dl"
  using assms by (auto intro!: frac_le)

lemma sqrt_bounds:
  fixes x :: real
  assumes "0 \<le> l" "l * l \<le> x" "x \<le> u * u" "0 \<le> u"
  shows "l \<le> sqrt x" "sqrt x \<le> u"
proof -
  from assms(2) show "l \<le> sqrt x" by (intro real_le_rsqrt) (simp add: power2_eq_square)
  from assms(3,4) show "sqrt x \<le> u" by (intro real_le_lsqrt) (simp_all add: power2_eq_square)
qed

lemma cbrt_bounds:
  fixes x :: real
  assumes "0 \<le> l" "l * l * l \<le> x" "x \<le> u * u * u" "0 \<le> u"
  shows "l \<le> root 3 x" "root 3 x \<le> u"
proof -
  have "root 3 (l ^ 3) \<le> root 3 x" using assms(2) by (simp add: power3_eq_cube)
  with assms(1) show "l \<le> root 3 x" by (simp add: real_root_power_cancel)
  have "root 3 x \<le> root 3 (u ^ 3)" using assms(3) by (simp add: power3_eq_cube)
  with assms(4) show "root 3 x \<le> u" by (simp add: real_root_power_cancel)
qed


lemma tube_chain:
  fixes k3 c2 c1 Q R :: real
  assumes k3: "0.6222 \<le> k3" "k3 \<le> 0.6223"
    and c2: "0.01867 \<le> c2" "c2 \<le> 0.01868"
    and c1: "- 0.31465 \<le> c1" "c1 \<le> - 0.31464"
    and Q: "0.1449 \<le> Q" "Q \<le> 0.1450"
    and R: "- 0.0910 \<le> R" "R \<le> - 0.0909"
    and h: "h = R * R - Q * Q * Q"
    and sQ: "sQ = root 3 (sqrt h + \<bar>R\<bar>)"
    and z: "z = c2 - - \<bar>\<bar>sQ + Q / sQ\<bar>\<bar>"
    and d1: "d1 = z - 3 * c2"
    and p: "p = sqrt (d1 * 0.5)"
    and q: "q = c1 / p"
    and h1: "h1 = p * p - z + q"
    and h2: "h2 = p * p - z - q"
    and s: "s = sqrt h2"
    and t1: "t1 = p - s - k3"
    and t2: "t2 = p + s - k3"
  shows "\<not> h < 0" "R < 0" "\<not> \<bar>d1\<bar> < 0.0001" "\<not> \<bar>d1\<bar> < 0.00000001" "\<not> d1 < 0" "\<not> 0 < h1" "0 < h2"
    "\<not> 0 < t1" "0 < t2" "0.24 < t2" "t2 < 0.26"
proof -
  show Rneg: "R < 0" using R by simp
  have RR: "R * R = (- R) * (- R)" by simp
  have R2: "0.0909 * 0.0909 \<le> R * R" "R * R \<le> 0.0910 * 0.0910"
    unfolding RR using R sq_bounds [of "0.0909" "- R" "0.0910"] by simp_all
  have Q3: "0.1449 * 0.1449 * 0.1449 \<le> Q * Q * Q" "Q * Q * Q \<le> 0.1450 * 0.1450 * 0.1450"
    using Q cube_bounds [of "0.1449" Q "0.1450"] by simp_all
  have hb: "0.005214 \<le> h" "h \<le> 0.005239" using R2 Q3 unfolding h by simp_all
  then show "\<not> h < 0" by simp
  have sh: "0.0722 \<le> sqrt h" "sqrt h \<le> 0.0724"
    using hb sqrt_bounds [of "0.0722" h "0.0724"] by simp_all
  have aR: "\<bar>R\<bar> = - R" using Rneg by simp
  have sm: "0.1631 \<le> sqrt h + \<bar>R\<bar>" "sqrt h + \<bar>R\<bar> \<le> 0.1634" using sh R unfolding aR by simp_all
  have sQb: "0.546 \<le> sQ" "sQ \<le> 0.547"
    unfolding sQ using sm cbrt_bounds [of "0.546" "sqrt h + \<bar>R\<bar>" "0.547"] by simp_all
  have QsQ: "0.1449 / 0.547 \<le> Q / sQ" "Q / sQ \<le> 0.1450 / 0.546"
    using Q sQb div_bounds [of "0.1449" Q "0.1450" "0.546" sQ "0.547"] by simp_all
  define w where "w = Q / sQ"
  have wb0: "0.1449 / 0.547 \<le> w" "w \<le> 0.1450 / 0.546" unfolding w_def by (rule QsQ)+
  have wb: "0.2648 \<le> w" "w \<le> 0.2656" using wb0 by simp_all
  have sumb: "0.8108 \<le> sQ + w" "sQ + w \<le> 0.8126" using sQb wb by simp_all
  then have "0 \<le> sQ + w" by simp
  then have asum: "\<bar>\<bar>sQ + w\<bar>\<bar> = sQ + w" by (simp only: abs_idempotent abs_of_nonneg)
  have zb: "0.82947 \<le> z" "z \<le> 0.83128"
    unfolding z w_def [symmetric] asum using sumb c2 by simp_all
  have d1b: "0.77343 \<le> d1" "d1 \<le> 0.77527" unfolding d1 using zb c2 by simp_all
  then show "\<not> \<bar>d1\<bar> < 0.0001" "\<not> \<bar>d1\<bar> < 0.00000001" "\<not> d1 < 0" by simp_all
  have pb: "0.6218 \<le> p" "p \<le> 0.6227"
    unfolding p using d1b sqrt_bounds [of "0.6218" "d1 * 0.5" "0.6227"] by simp_all
  have ppb: "0.6218 * 0.6218 \<le> p * p" "p * p \<le> 0.6227 * 0.6227"
    using pb sq_bounds [of "0.6218" p "0.6227"] by simp_all
  have mq: "- q = (- c1) / p" unfolding q by simp
  have mqb: "0.31464 / 0.6227 \<le> - q" "- q \<le> 0.31465 / 0.6218"
    unfolding mq using c1 pb div_bounds [of "0.31464" "- c1" "0.31465" "0.6218" p "0.6227"] by simp_all
  then have qb: "q \<le> - 0.50528" "- 0.50604 \<le> q" by simp_all
  show "\<not> 0 < h1" unfolding h1 using ppb zb qb by simp
  have h2b: "0.06063 \<le> h2" "h2 \<le> 0.06433" unfolding h2 using ppb zb qb by simp_all
  then show "0 < h2" by simp
  have sb: "0.246 \<le> s" "s \<le> 0.254"
    unfolding s using h2b sqrt_bounds [of "0.246" h2 "0.254"] by simp_all
  show "\<not> 0 < t1" unfolding t1 using pb sb k3 by simp
  show "0 < t2" "0.24 < t2" "t2 < 0.26" unfolding t2 using pb sb k3 by simp_all
qed

subsection \<open>A ray from inside the tube\<close>

text \<open>
  The ray \<open>tube_ray\<close> starts on the centre circle of the torus. Its coefficients are
  rational numbers, the same for both thresholds of the test before the swap, which it
  fails.
\<close>

lemma tube_coeffs:
  "flip \<le> 0.01 \<Longrightarrow> Torus_coeffs flip tube_ray =
     Some (1, 349999999292893171 / 562500000000000000,
           196940316882412050898299017476714782790937249 / 10546875000000000000000000000000000000000000000,
           - (22400004673602579789156034780722892159752899 / 71191406250000000000000000000000000000000000),
           482491460614265739939845794006185230815427671350508691093913777684417779298807991 /
           3337097167968750000000000000000000000000000000000000000000000000000000000000000000)"
  by (simp add: Torus_coeffs_def Torus_O_def Torus_D_def tube_ray_def Ray_new_def Ray_ctor_def dot_def Let_def)

text \<open>The roots are irrational; the intervals above place them: \<open>t1 < 0 < t2 < 1\<close>.\<close>

lemma tube_roots:
  "(\<exists>t. Torus_Intersect_t tube_ray = Some t \<and> 0.24 < t \<and> t < 0.26) \<and>
   \<not> Torus_IsOccluded tor tube_ray"
proof -
  define k3 :: real where "k3 = 349999999292893171 / 562500000000000000"
  define c2 :: real where
    "c2 = 196940316882412050898299017476714782790937249 / 10546875000000000000000000000000000000000000000"
  define c1 :: real where
    "c1 = - (22400004673602579789156034780722892159752899 / 71191406250000000000000000000000000000000000)"
  define c0 :: real where
    "c0 = 482491460614265739939845794006185230815427671350508691093913777684417779298807991 /
          3337097167968750000000000000000000000000000000000000000000000000000000000000000000"
  have cf: "Torus_coeffs flip tube_ray = Some (1, k3, c2, c1, c0)" if "flip \<le> 0.01" for flip
    unfolding k3_def c2_def c1_def c0_def using that by (rule tube_coeffs)
  define Q where "Q = c2 * c2 + c0"
  define R where "R = 3 * c0 * c2 - c2 * c2 * c2 - c1 * c1"
  define h where "h = R * R - Q * Q * Q"
  define sQ where "sQ = root 3 (sqrt h + \<bar>R\<bar>)"
  define z where "z = c2 - - \<bar>\<bar>sQ + Q / sQ\<bar>\<bar>"
  define d1 where "d1 = z - 3 * c2"
  define p where "p = sqrt (d1 * 0.5)"
  define q where "q = c1 / p"
  define h1 where "h1 = p * p - z + q"
  define h2 where "h2 = p * p - z - q"
  define s where "s = sqrt h2"
  define t1 where "t1 = p - s - k3"
  define t2 where "t2 = p + s - k3"
  have k3b: "0.6222 \<le> k3" "k3 \<le> 0.6223" by (simp_all add: k3_def)
  have c2b: "0.01867 \<le> c2" "c2 \<le> 0.01868" by (simp_all add: c2_def)
  have c1b: "- 0.31465 \<le> c1" "c1 \<le> - 0.31464" by (simp_all add: c1_def)
  have Qb: "0.1449 \<le> Q" "Q \<le> 0.1450" by (simp_all add: Q_def c2_def c0_def)
  have Rb: "- 0.0910 \<le> R" "R \<le> - 0.0909" by (simp_all add: R_def c2_def c1_def c0_def)
  note ch = tube_chain [OF k3b c2b c1b Qb Rb h_def sQ_def z_def d1_def p_def q_def h1_def h2_def
      s_def t1_def t2_def]
  have po: "\<not> (1::real) < 0" by simp
  have "Torus_Intersect_roots 1 k3 c2 c1 c0 = Some (min (10 ^ 20) t2)"
    using Q_def [symmetric] R_def [symmetric] h_def [symmetric] ch(1) sQ_def [symmetric] ch(2)
      z_def [symmetric] d1_def [symmetric] ch(4) ch(5) p_def [symmetric] q_def [symmetric]
      h1_def [symmetric] ch(6) h2_def [symmetric] ch(7) s_def [symmetric] po t1_def [symmetric]
      ch(8) t2_def [symmetric] ch(9)
    by (rule Torus_Intersect_roots_second_pair)
  moreover have "min (10 ^ 20) t2 = t2" using ch(11) by simp
  ultimately have "Torus_Intersect_t tube_ray = Some t2"
    by (simp add: Torus_Intersect_t_stages cf)
  with ch(10) ch(11) have A: "\<exists>t. Torus_Intersect_t tube_ray = Some t \<and> 0.24 < t \<and> t < 0.26"
    by simp
  have "\<not> Torus_IsOccluded_roots (ray_t tube_ray) 1 k3 c2 c1 c0"
    using Q_def [symmetric] R_def [symmetric] h_def [symmetric] ch(1) sQ_def [symmetric] ch(2)
      z_def [symmetric] d1_def [symmetric] ch(3) ch(5) p_def [symmetric] q_def [symmetric]
      h1_def [symmetric] ch(6) h2_def [symmetric] s_def [symmetric] po t1_def [symmetric] ch(8)
    by (rule Torus_IsOccluded_roots_second_pair)
  then have B: "\<not> Torus_IsOccluded tor tube_ray"
    by (simp add: Torus_IsOccluded_stages cf)
  from A B show ?thesis by (rule conjI)
qed

lemma tube_hit_not_occluded:
  "(\<exists>t. Torus_Intersect tor tube_ray = record_hit tube_ray t (torus_objIdx tor) \<and>
        0.24 < t \<and> t < 0.26) \<and>
   Torus_Intersect tor tube_ray \<noteq> tube_ray \<and> \<not> Torus_IsOccluded tor tube_ray"
proof -
  from tube_roots [of tor] obtain t where t: "Torus_Intersect_t tube_ray = Some t" "0.24 < t" "t < 0.26"
    and occ: "\<not> Torus_IsOccluded tor tube_ray" by blast
  have rt: "ray_t tube_ray = 10 ^ 34" by (simp add: tube_ray_def Ray_new_def Ray_ctor_def)
  from t have lt: "t < ray_t tube_ray" unfolding rt by simp
  from t lt have hit: "Torus_Intersect tor tube_ray = record_hit tube_ray t (torus_objIdx tor)"
    by (simp add: Torus_Intersect_def)
  from lt have "record_hit tube_ray t (torus_objIdx tor) \<noteq> tube_ray" by (rule record_hit_neq)
  with hit have "Torus_Intersect tor tube_ray \<noteq> tube_ray" by simp
  with hit t occ show ?thesis by blast
qed

section \<open>Occlusion against intersection\<close>

lemma Quad_agree: "Quad_IsOccluded q ray \<longleftrightarrow> Quad_Intersect q ray \<noteq> ray"
  by (simp add: Quad_IsOccluded_def Quad_Intersect_def Let_def record_hit_neq)

lemma Sphere_occluded_hit: "Sphere_IsOccluded s ray \<Longrightarrow> Sphere_Intersect s ray \<noteq> ray"
  by (simp add: Sphere_IsOccluded_def Sphere_Intersect_def Let_def record_hit_neq split: if_splits)

lemma Sphere_agree_outside:
  "0 < dot (ray_O ray - sphere_pos s) (ray_O ray - sphere_pos s) - sphere_r2 s \<Longrightarrow>
   Sphere_IsOccluded s ray \<longleftrightarrow> Sphere_Intersect s ray \<noteq> ray"
  by (simp add: Sphere_IsOccluded_def Sphere_Intersect_def Let_def record_hit_neq)

text \<open>From inside the sphere and from its surface the near root is not positive.\<close>

lemma Sphere_inside_clear:
  assumes "dot (ray_O ray - sphere_pos s) (ray_O ray - sphere_pos s) - sphere_r2 s \<le> 0"
  shows "\<not> Sphere_IsOccluded s ray"
proof -
  define b where "b = dot (ray_O ray - sphere_pos s) (ray_D ray)"
  define c where "c = dot (ray_O ray - sphere_pos s) (ray_O ray - sphere_pos s) - sphere_r2 s"
  from assms have "b * b \<le> b * b - c" by (simp add: c_def)
  then have "sqrt (b * b) \<le> sqrt (b * b - c)" by (rule real_sqrt_le_mono)
  then have "\<bar>b\<bar> \<le> sqrt (b * b - c)" by simp
  then have "\<not> 0 < - b - sqrt (b * b - c)" by simp
  then show ?thesis
    by (simp add: Sphere_IsOccluded_def Let_def b_def c_def)
qed

lemma scene_sphere_agree:
  "IsOccluded_sphere scn ray \<longleftrightarrow>
   FindNearest_sphere (sphere_pos (scene_sphere scn)) (ray_O ray) (ray_D ray) ray \<noteq> ray"
  by (simp add: IsOccluded_sphere_def FindNearest_sphere_def Let_def record_hit_neq)

lemma scene_lights_agree:
  assumes "ray_t ray \<le> 10 ^ 34"
  shows "IsOccluded_lights ray \<longleftrightarrow> FindNearest_lights ray \<noteq> ray"
proof (cases "lights_valmask ray")
  case False
  with assms show ?thesis
    by (simp add: IsOccluded_lights_def FindNearest_lights_def)
next
  case True
  then have lt: "lights_tq ray < ray_t ray"
    by (simp add: lights_valmask_def)
  show ?thesis
  proof (cases "IsOccluded_lights ray")
    case False
    with assms True show ?thesis
      by (simp add: IsOccluded_lights_def FindNearest_lights_def)
  next
    case occ: True
    have "ray_t (FindNearest_lights ray) = lights_tq ray"
      using occ True lt assms
      by (auto simp: IsOccluded_lights_def FindNearest_lights_def Let_def record_hit_def)
    with lt have "FindNearest_lights ray \<noteq> ray" by auto
    with occ show ?thesis by simp
  qed
qed

text \<open>When \<^verbatim>\<open>Cube::Intersect\<close> changes the ray, in terms of the two distances.\<close>

lemma Cube_hit_iff:
  "Cube_Intersect c ray \<noteq> ray \<longleftrightarrow>
     Cube_tmin (\<lambda>d. 1 / d) c ray < Cube_tmax (\<lambda>d. 1 / d) c ray \<and>
     (if Finite 0 < Cube_tmin (\<lambda>d. 1 / d) c ray
      then Cube_tmin (\<lambda>d. 1 / d) c ray < Finite (ray_t ray)
      else Finite 0 < Cube_tmax (\<lambda>d. 1 / d) c ray \<and>
           Cube_tmax (\<lambda>d. 1 / d) c ray < Finite (ray_t ray))"
  by (simp add: Cube_Intersect_def Let_def record_hit_neq between_finite)

lemma Cube_hit_occluded:
  assumes "Cube_Intersect c ray \<noteq> ray"
  shows "Cube_IsOccluded (\<lambda>d. 1 / d) c ray"
  using assms
    xfloat_less_trans [of "Finite 0" "Cube_tmin (\<lambda>d. 1 / d) c ray" "Cube_tmax (\<lambda>d. 1 / d) c ray"]
    xfloat_less_trans [of "Cube_tmin (\<lambda>d. 1 / d) c ray" "Cube_tmax (\<lambda>d. 1 / d) c ray"
      "Finite (ray_t ray)"]
  by (auto simp: Cube_hit_iff Cube_IsOccluded_def Let_def split: if_splits)

lemma Cube_agree:
  assumes "Finite 0 < Cube_tmin (\<lambda>d. 1 / d) c ray \<or>
           Cube_tmax (\<lambda>d. 1 / d) c ray < Finite (ray_t ray)"
  shows "Cube_IsOccluded (\<lambda>d. 1 / d) c ray \<longleftrightarrow> Cube_Intersect c ray \<noteq> ray"
  using assms
    xfloat_less_trans [of "Finite 0" "Cube_tmin (\<lambda>d. 1 / d) c ray" "Cube_tmax (\<lambda>d. 1 / d) c ray"]
    xfloat_less_trans [of "Cube_tmin (\<lambda>d. 1 / d) c ray" "Cube_tmax (\<lambda>d. 1 / d) c ray"
      "Finite (ray_t ray)"]
  by (auto simp: Cube_hit_iff Cube_IsOccluded_def Let_def split: if_splits)

text \<open>
  \<^verbatim>\<open>Cube::IsOccluded\<close> with the reciprocal \<open>rcp\<close> gives what it gives with the division
  when its three comparisons come out the same.
\<close>

lemma Cube_same_comparisons:
  assumes "Finite 0 < Cube_tmax rcp c ray \<longleftrightarrow> Finite 0 < Cube_tmax (\<lambda>d. 1 / d) c ray"
    and "Cube_tmin rcp c ray < Cube_tmax rcp c ray \<longleftrightarrow>
         Cube_tmin (\<lambda>d. 1 / d) c ray < Cube_tmax (\<lambda>d. 1 / d) c ray"
    and "Cube_tmin rcp c ray < Finite (ray_t ray) \<longleftrightarrow>
         Cube_tmin (\<lambda>d. 1 / d) c ray < Finite (ray_t ray)"
  shows "Cube_IsOccluded rcp c ray \<longleftrightarrow> Cube_IsOccluded (\<lambda>d. 1 / d) c ray"
  using assms by (simp add: Cube_IsOccluded_def Let_def)

lemma Scene_IsOccluded_tests:
  "Scene_IsOccluded E scn ray \<longleftrightarrow>
     Cube_IsOccluded (rcp_ps E) (scene_cube scn) ray \<or> IsOccluded_sphere scn ray \<or>
     IsOccluded_lights ray \<or> Torus_IsOccluded (scene_torus scn) ray"
  by (simp add: Scene_IsOccluded_def)

subsection \<open>The cube with an approximate reciprocal\<close>

lemmas cube_axis_defs = Cube_tmin_def Cube_tmax_def Cube_slab_def lane_def xfloat_ops
  demo_scene_centred_def demo_scene_def mat4_Identity_def Ray_ctor_def Let_def

lemma cube_short_occluded:
  "Cube_IsOccluded (\<lambda>d. 1 / d) (scene_cube demo_scene_centred) short_ray_in_cube"
  by (simp add: Cube_IsOccluded_def cube_axis_defs short_ray_in_cube_def)

lemma cube_short_occluded_low:
  "Cube_IsOccluded rcp_low (scene_cube demo_scene_centred) short_ray_in_cube"
  by (simp add: Cube_IsOccluded_def cube_axis_defs short_ray_in_cube_def rcp_low_def)

lemma cube_short_no_hit:
  "Cube_Intersect (scene_cube demo_scene_centred) short_ray_in_cube = short_ray_in_cube"
  by (simp add: Cube_Intersect_def cube_axis_defs short_ray_in_cube_def)

lemma cube_low_outside:
  "Finite 0 < Cube_tmin (\<lambda>d. 1 / d) (scene_cube demo_scene_centred) near_miss_ray"
  by (simp add: cube_axis_defs near_miss_ray_def)

lemma cube_low_occluded:
  "Cube_IsOccluded rcp_low (scene_cube demo_scene_centred) near_miss_ray"
  by (simp add: Cube_IsOccluded_def cube_axis_defs near_miss_ray_def rcp_low_def)

lemma cube_low_no_hit:
  "Cube_Intersect (scene_cube demo_scene_centred) near_miss_ray = near_miss_ray"
  by (simp add: Cube_Intersect_def cube_axis_defs near_miss_ray_def)

lemma cube_high_clear:
  "\<not> Cube_IsOccluded rcp_high (scene_cube demo_scene_centred) grazing_ray"
  by (simp add: Cube_IsOccluded_def cube_axis_defs grazing_ray_def rcp_high_def)

lemma cube_high_hit:
  "Cube_Intersect (scene_cube demo_scene_centred) grazing_ray = record_hit grazing_ray (9 / 2) 3"
  by (simp add: Cube_Intersect_def cube_axis_defs grazing_ray_def)

subsection \<open>A wall and the corner sphere, which the occlusion test leaves out\<close>

lemma cube_floor_clear: "\<not> Cube_IsOccluded (rcp_ps demo_tmpl8) (scene_cube demo_scene) floor_ray"
  by (simp add: Cube_IsOccluded_def Cube_tmin_def Cube_tmax_def Cube_slab_def lane_def xfloat_ops
      demo_scene_def demo_tmpl8_def translation_def mat4_Identity_def floor_ray_def
      Ray_new_def Ray_ctor_def Let_def)

lemma sphere_floor_clear: "\<not> IsOccluded_sphere demo_scene floor_ray"
  by (simp add: IsOccluded_sphere_def demo_scene_def Sphere_ctor_def floor_ray_def
      Ray_new_def Ray_ctor_def Let_def float3_ops)

lemma lights_floor_clear: "\<not> IsOccluded_lights floor_ray"
  by (simp add: IsOccluded_lights_def lights_valmask_def lights_tq_def floor_ray_def
      Ray_new_def Ray_ctor_def)

lemma torus_floor_clear: "\<not> Torus_IsOccluded (scene_torus demo_scene) floor_ray"
  by (simp add: Torus_IsOccluded_def Torus_O_def Torus_D_def floor_ray_def
      Ray_new_def Ray_ctor_def float3_ops)

text \<open>
  The ray \<open>corner_ray\<close> meets the corner sphere at distance 6, before the floor, and
  nothing that the occlusion test looks at.
\<close>

lemma walls_corner: "FindNearest_walls corner_ray = record_hit corner_ray (37 / 6) 6"
  by (simp add: FindNearest_walls_def PLANE_X_def PLANE_Y_def PLANE_Z_def corner_ray_def
      Ray_new_def Ray_ctor_def Let_def record_hit_def)

lemma lights_corner:
  "FindNearest_lights (record_hit corner_ray (37 / 6) 6) = record_hit corner_ray (37 / 6) 6"
  by (simp add: FindNearest_lights_def lights_hitmask_def lights_valmask_def lights_tq_def lane_def
      corner_ray_def Ray_new_def Ray_ctor_def Let_def record_hit_def)

lemma sphere_corner:
  "FindNearest_sphere (sphere_pos (scene_sphere demo_scene)) (ray_O corner_ray) (ray_D corner_ray)
     (record_hit corner_ray (37 / 6) 6) = record_hit corner_ray (37 / 6) 6"
  by (simp add: FindNearest_sphere_def demo_scene_def corner_ray_def
      Ray_new_def Ray_ctor_def Let_def float3_ops record_hit_def)

lemma sphere2_corner:
  "FindNearest_sphere2 (ray_O corner_ray) (ray_D corner_ray) (record_hit corner_ray (37 / 6) 6)
     = record_hit corner_ray 6 2"
  by (simp add: FindNearest_sphere2_def corner_ray_def
      Ray_new_def Ray_ctor_def Let_def float3_ops record_hit_def sqrt_64)

lemma cube_corner:
  "Cube_Intersect (scene_cube demo_scene) (record_hit corner_ray 6 2) = record_hit corner_ray 6 2"
  by (simp add: Cube_Intersect_def Cube_tmin_def Cube_tmax_def Cube_slab_def lane_def xfloat_ops
      demo_scene_def translation_def mat4_Identity_def corner_ray_def
      Ray_new_def Ray_ctor_def Let_def record_hit_def)

lemma torus_corner:
  "Torus_Intersect (scene_torus demo_scene) (record_hit corner_ray 6 2) = record_hit corner_ray 6 2"
  by (simp add: Torus_Intersect_def Torus_Intersect_t_def Torus_O_def Torus_D_def
      corner_ray_def Ray_new_def Ray_ctor_def float3_ops record_hit_def)

lemma FindNearest_corner: "FindNearest demo_scene corner_ray = record_hit corner_ray 6 2"
  by (simp add: FindNearest_def Let_def walls_corner lights_corner sphere_corner
      sphere2_corner cube_corner torus_corner)

lemma cube_corner_clear: "\<not> Cube_IsOccluded (rcp_ps demo_tmpl8) (scene_cube demo_scene) corner_ray"
  by (simp add: Cube_IsOccluded_def Cube_tmin_def Cube_tmax_def Cube_slab_def lane_def xfloat_ops
      demo_scene_def demo_tmpl8_def translation_def mat4_Identity_def corner_ray_def
      Ray_new_def Ray_ctor_def Let_def)

lemma sphere_corner_clear: "\<not> IsOccluded_sphere demo_scene corner_ray"
  by (simp add: IsOccluded_sphere_def demo_scene_def Sphere_ctor_def corner_ray_def
      Ray_new_def Ray_ctor_def Let_def float3_ops)

lemma lights_corner_clear: "\<not> IsOccluded_lights corner_ray"
  by (simp add: IsOccluded_lights_def lights_hitmask_def lights_valmask_def lights_tq_def lane_def
      corner_ray_def Ray_new_def Ray_ctor_def)

lemma torus_corner_clear: "\<not> Torus_IsOccluded (scene_torus demo_scene) corner_ray"
  by (simp add: Torus_IsOccluded_def Torus_O_def Torus_D_def corner_ray_def
      Ray_new_def Ray_ctor_def float3_ops)

text \<open>
  Claim C2, as the code has it. \<^verbatim>\<open>Quad::IsOccluded\<close> is true exactly when
  \<^verbatim>\<open>Quad::Intersect\<close> changes the ray. \<^verbatim>\<open>Sphere::IsOccluded\<close> tests the near root only:
  when it is true \<^verbatim>\<open>Sphere::Intersect\<close> changes the ray, the converse holds for an origin
  outside the sphere, and for an origin inside the sphere or on it \<^verbatim>\<open>Sphere::IsOccluded\<close> is
  false. The ball and the lights as \<^verbatim>\<open>Scene::IsOccluded\<close> tests them agree with the same
  tests of \<^verbatim>\<open>Scene::FindNearest\<close> (the lights for a ray with \<open>t \<le> 10\<^sup>3\<^sup>4\<close>).
  \<^verbatim>\<open>Cube::IsOccluded\<close> takes its distances from \<^verbatim>\<open>_mm_rcp_ps\<close>, the reciprocal \<open>rcp\<close>, and
  \<^verbatim>\<open>Cube::Intersect\<close> from a division. For a ray on which the three comparisons of
  \<^verbatim>\<open>Cube::IsOccluded\<close>, \<open>tmax > 0\<close>, \<open>tmin < tmax\<close> and \<open>tmin < ray.t\<close>, come out with its
  distances as they do with those of \<^verbatim>\<open>Cube::Intersect\<close>, \<^verbatim>\<open>Cube::IsOccluded\<close> is true when
  \<^verbatim>\<open>Cube::Intersect\<close> changes the ray, and exactly then when \<open>tmin > 0\<close>, the cube ahead of
  the origin, or \<open>tmax < ray.t\<close>, the ray ending behind the cube.
  \<^verbatim>\<open>Scene::IsOccluded\<close> is true exactly when one of its four tests is, those of the cube,
  the ball, the lights and the torus: it does not look at the walls or at the corner
  sphere. Nothing is said of \<^verbatim>\<open>Torus::IsOccluded\<close> against \<^verbatim>\<open>Torus::Intersect\<close>.
\<close>

theorem IsOccluded_agrees_where_tests_coincide:
  "(Quad_IsOccluded q ray \<longleftrightarrow> Quad_Intersect q ray \<noteq> ray) \<and>
   (Sphere_IsOccluded s ray \<longrightarrow> Sphere_Intersect s ray \<noteq> ray) \<and>
   (0 < dot (ray_O ray - sphere_pos s) (ray_O ray - sphere_pos s) - sphere_r2 s \<longrightarrow>
      (Sphere_IsOccluded s ray \<longleftrightarrow> Sphere_Intersect s ray \<noteq> ray)) \<and>
   (dot (ray_O ray - sphere_pos s) (ray_O ray - sphere_pos s) - sphere_r2 s \<le> 0 \<longrightarrow>
      \<not> Sphere_IsOccluded s ray) \<and>
   (IsOccluded_sphere scn ray \<longleftrightarrow>
      FindNearest_sphere (sphere_pos (scene_sphere scn)) (ray_O ray) (ray_D ray) ray \<noteq> ray) \<and>
   (ray_t ray \<le> 10 ^ 34 \<longrightarrow> (IsOccluded_lights ray \<longleftrightarrow> FindNearest_lights ray \<noteq> ray)) \<and>
   ((Finite 0 < Cube_tmax rcp c ray \<longleftrightarrow> Finite 0 < Cube_tmax (\<lambda>d. 1 / d) c ray) \<and>
    (Cube_tmin rcp c ray < Cube_tmax rcp c ray \<longleftrightarrow>
       Cube_tmin (\<lambda>d. 1 / d) c ray < Cube_tmax (\<lambda>d. 1 / d) c ray) \<and>
    (Cube_tmin rcp c ray < Finite (ray_t ray) \<longleftrightarrow>
       Cube_tmin (\<lambda>d. 1 / d) c ray < Finite (ray_t ray)) \<longrightarrow>
      (Cube_Intersect c ray \<noteq> ray \<longrightarrow> Cube_IsOccluded rcp c ray) \<and>
      (Finite 0 < Cube_tmin (\<lambda>d. 1 / d) c ray \<or>
       Cube_tmax (\<lambda>d. 1 / d) c ray < Finite (ray_t ray) \<longrightarrow>
         (Cube_IsOccluded rcp c ray \<longleftrightarrow> Cube_Intersect c ray \<noteq> ray))) \<and>
   (Scene_IsOccluded E scn ray \<longleftrightarrow>
      Cube_IsOccluded (rcp_ps E) (scene_cube scn) ray \<or> IsOccluded_sphere scn ray \<or>
      IsOccluded_lights ray \<or> Torus_IsOccluded (scene_torus scn) ray)"
proof -
  have cube: "(Finite 0 < Cube_tmax rcp c ray \<longleftrightarrow> Finite 0 < Cube_tmax (\<lambda>d. 1 / d) c ray) \<and>
      (Cube_tmin rcp c ray < Cube_tmax rcp c ray \<longleftrightarrow>
         Cube_tmin (\<lambda>d. 1 / d) c ray < Cube_tmax (\<lambda>d. 1 / d) c ray) \<and>
      (Cube_tmin rcp c ray < Finite (ray_t ray) \<longleftrightarrow>
         Cube_tmin (\<lambda>d. 1 / d) c ray < Finite (ray_t ray)) \<longrightarrow>
        (Cube_Intersect c ray \<noteq> ray \<longrightarrow> Cube_IsOccluded rcp c ray) \<and>
        (Finite 0 < Cube_tmin (\<lambda>d. 1 / d) c ray \<or>
         Cube_tmax (\<lambda>d. 1 / d) c ray < Finite (ray_t ray) \<longrightarrow>
           (Cube_IsOccluded rcp c ray \<longleftrightarrow> Cube_Intersect c ray \<noteq> ray))"
    using Cube_same_comparisons [of rcp c ray] Cube_hit_occluded [of c ray] Cube_agree [of c ray]
    by blast
  have near: "Sphere_IsOccluded s ray \<longrightarrow> Sphere_Intersect s ray \<noteq> ray"
    using Sphere_occluded_hit [of s ray] by blast
  have outside: "0 < dot (ray_O ray - sphere_pos s) (ray_O ray - sphere_pos s) - sphere_r2 s \<longrightarrow>
      (Sphere_IsOccluded s ray \<longleftrightarrow> Sphere_Intersect s ray \<noteq> ray)"
    using Sphere_agree_outside [of ray s] by blast
  have inside: "dot (ray_O ray - sphere_pos s) (ray_O ray - sphere_pos s) - sphere_r2 s \<le> 0 \<longrightarrow>
      \<not> Sphere_IsOccluded s ray"
    using Sphere_inside_clear [of ray s] by blast
  have lights: "ray_t ray \<le> 10 ^ 34 \<longrightarrow> (IsOccluded_lights ray \<longleftrightarrow> FindNearest_lights ray \<noteq> ray)"
    using scene_lights_agree [of ray] by blast
  from Quad_agree [of q ray] near outside inside scene_sphere_agree [of scn ray] lights cube
    Scene_IsOccluded_tests [of E scn ray]
  show ?thesis by (intro conjI)
qed

text \<open>
  Claim C2 as the specification has it, an equivalence for every primitive of the
  occlusion set, fails for the ball, the cube and the torus.
  \<^verbatim>\<open>Sphere::Intersect\<close> records the far root for a ray from the centre of the ball, which
  \<^verbatim>\<open>Sphere::IsOccluded\<close> does not look at. \<^verbatim>\<open>Cube::IsOccluded\<close> is true for a ray of length
  \<open>0.1\<close> that starts inside the cube and ends inside it, which \<^verbatim>\<open>Cube::Intersect\<close> leaves as
  it is, whether the reciprocal is exact or not. With a reciprocal that is too small by
  one part in 4096, \<^verbatim>\<open>Cube::IsOccluded\<close> is true for a ray from outside that ends
  \<open>0.0005\<close> before the cube, which \<^verbatim>\<open>Cube::Intersect\<close> leaves as it is; with one that is too
  large by as much, it is false for a ray that ends \<open>0.0005\<close> behind the face, on which
  \<^verbatim>\<open>Cube::Intersect\<close> records the hit. And for a ray that starts inside the tube of the
  torus, \<^verbatim>\<open>Torus::Intersect\<close> records the root \<open>t2\<close> of the second pair, near \<open>0.25\<close>, where
  \<^verbatim>\<open>Torus::IsOccluded\<close> looks at the root \<open>t1\<close> of each pair only, and is false.
\<close>

theorem IsOccluded_differs:
  "(Sphere_Intersect ball ray_from_centre = record_hit ray_from_centre (3 / 5) 1 \<and>
    Sphere_Intersect ball ray_from_centre \<noteq> ray_from_centre \<and>
    \<not> Sphere_IsOccluded ball ray_from_centre) \<and>
   (Cube_IsOccluded (\<lambda>d. 1 / d) (scene_cube demo_scene_centred) short_ray_in_cube \<and>
    Cube_IsOccluded rcp_low (scene_cube demo_scene_centred) short_ray_in_cube \<and>
    Cube_Intersect (scene_cube demo_scene_centred) short_ray_in_cube = short_ray_in_cube) \<and>
   (Finite 0 < Cube_tmin (\<lambda>d. 1 / d) (scene_cube demo_scene_centred) near_miss_ray \<and>
    Cube_IsOccluded rcp_low (scene_cube demo_scene_centred) near_miss_ray \<and>
    Cube_Intersect (scene_cube demo_scene_centred) near_miss_ray = near_miss_ray) \<and>
   (Cube_Intersect (scene_cube demo_scene_centred) grazing_ray = record_hit grazing_ray (9 / 2) 3 \<and>
    Cube_Intersect (scene_cube demo_scene_centred) grazing_ray \<noteq> grazing_ray \<and>
    \<not> Cube_IsOccluded rcp_high (scene_cube demo_scene_centred) grazing_ray) \<and>
   ((\<exists>t. Torus_Intersect (scene_torus demo_scene) tube_ray = record_hit tube_ray t 10 \<and>
         0.24 < t \<and> t < 0.26) \<and>
    Torus_Intersect (scene_torus demo_scene) tube_ray \<noteq> tube_ray \<and>
    \<not> Torus_IsOccluded (scene_torus demo_scene) tube_ray)"
proof -
  have hit: "Sphere_Intersect ball ray_from_centre = record_hit ray_from_centre (3 / 5) 1"
    by (simp add: Sphere_Intersect_def ball_def Sphere_ctor_def ray_from_centre_def Ray_new_def
        Ray_ctor_def Let_def float3_ops sqrt_9_25)
  have "record_hit ray_from_centre (3 / 5) 1 \<noteq> ray_from_centre"
    by (rule record_hit_neq) (simp add: ray_from_centre_def Ray_new_def Ray_ctor_def)
  with hit have changed: "Sphere_Intersect ball ray_from_centre \<noteq> ray_from_centre"
    by simp
  have clear: "\<not> Sphere_IsOccluded ball ray_from_centre"
    by (simp add: Sphere_IsOccluded_def ball_def Sphere_ctor_def ray_from_centre_def Ray_new_def
        Ray_ctor_def Let_def float3_ops sqrt_9_25)
  have "record_hit grazing_ray (9 / 2) 3 \<noteq> grazing_ray"
    by (rule record_hit_neq) (simp add: grazing_ray_def Ray_ctor_def)
  then have grazed: "Cube_Intersect (scene_cube demo_scene_centred) grazing_ray \<noteq> grazing_ray"
    by (simp add: cube_high_hit)
  have idx: "torus_objIdx (scene_torus demo_scene) = 10"
    by (simp add: demo_scene_def Torus_ctor_def)
  note tube = tube_hit_not_occluded [of "scene_torus demo_scene", unfolded idx]
  from hit changed clear cube_short_occluded cube_short_occluded_low cube_short_no_hit
    cube_low_outside cube_low_occluded cube_low_no_hit cube_high_hit grazed cube_high_clear
    tube [THEN conjunct1] tube [THEN conjunct2, THEN conjunct1] tube [THEN conjunct2, THEN conjunct2]
  show ?thesis by (intro conjI)
qed

theorem IsOccluded_agrees_witness:
  "(Sphere_IsOccluded ball ray_from_outside \<and>
    0 < dot (ray_O ray_from_outside - sphere_pos ball) (ray_O ray_from_outside - sphere_pos ball)
          - sphere_r2 ball \<and>
    Sphere_Intersect ball ray_from_outside \<noteq> ray_from_outside) \<and>
   (dot (ray_O ray_from_centre - sphere_pos ball) (ray_O ray_from_centre - sphere_pos ball)
          - sphere_r2 ball \<le> 0 \<and>
    \<not> Sphere_IsOccluded ball ray_from_centre) \<and>
   (ray_t ray_to_light \<le> 10 ^ 34 \<and> IsOccluded_lights ray_to_light \<and>
    FindNearest_lights ray_to_light \<noteq> ray_to_light) \<and>
   ((Finite 0 < Cube_tmax rcp_low (scene_cube demo_scene_centred) axis_ray \<longleftrightarrow>
       Finite 0 < Cube_tmax (\<lambda>d. 1 / d) (scene_cube demo_scene_centred) axis_ray) \<and>
    (Cube_tmin rcp_low (scene_cube demo_scene_centred) axis_ray
       < Cube_tmax rcp_low (scene_cube demo_scene_centred) axis_ray \<longleftrightarrow>
     Cube_tmin (\<lambda>d. 1 / d) (scene_cube demo_scene_centred) axis_ray
       < Cube_tmax (\<lambda>d. 1 / d) (scene_cube demo_scene_centred) axis_ray) \<and>
    (Cube_tmin rcp_low (scene_cube demo_scene_centred) axis_ray < Finite (ray_t axis_ray) \<longleftrightarrow>
     Cube_tmin (\<lambda>d. 1 / d) (scene_cube demo_scene_centred) axis_ray < Finite (ray_t axis_ray)) \<and>
    Finite 0 < Cube_tmin (\<lambda>d. 1 / d) (scene_cube demo_scene_centred) axis_ray \<and>
    Cube_Intersect (scene_cube demo_scene_centred) axis_ray \<noteq> axis_ray \<and>
    Cube_IsOccluded rcp_low (scene_cube demo_scene_centred) axis_ray) \<and>
   (FindNearest demo_scene floor_ray = record_hit floor_ray (3 / 2) 6 \<and>
    \<not> Scene_IsOccluded demo_tmpl8 demo_scene floor_ray) \<and>
   (FindNearest demo_scene corner_ray = record_hit corner_ray 6 2 \<and>
    \<not> Scene_IsOccluded demo_tmpl8 demo_scene corner_ray)"
proof -
  have occ: "Sphere_IsOccluded ball ray_from_outside"
    by (simp add: Sphere_IsOccluded_def ball_def Sphere_ctor_def ray_from_outside_def Ray_new_def
        Ray_ctor_def Let_def float3_ops sqrt_9_25)
  have outside: "0 < dot (ray_O ray_from_outside - sphere_pos ball)
      (ray_O ray_from_outside - sphere_pos ball) - sphere_r2 ball"
    by (simp add: ball_def Sphere_ctor_def ray_from_outside_def Ray_new_def Ray_ctor_def float3_ops)
  have inside: "dot (ray_O ray_from_centre - sphere_pos ball)
      (ray_O ray_from_centre - sphere_pos ball) - sphere_r2 ball \<le> 0"
    by (simp add: ball_def Sphere_ctor_def ray_from_centre_def Ray_new_def Ray_ctor_def float3_ops)
  have far: "ray_t ray_to_light \<le> 10 ^ 34"
    by (simp add: ray_to_light_def Ray_new_def Ray_ctor_def)
  have lit: "IsOccluded_lights ray_to_light"
    by (simp add: IsOccluded_lights_def lights_hitmask_def lights_valmask_def lights_tq_def lane_def
        ray_to_light_def Ray_new_def Ray_ctor_def)
  have cmp0: "Finite 0 < Cube_tmax rcp_low (scene_cube demo_scene_centred) axis_ray \<longleftrightarrow>
      Finite 0 < Cube_tmax (\<lambda>d. 1 / d) (scene_cube demo_scene_centred) axis_ray"
    by (simp add: cube_axis_defs axis_ray_def rcp_low_def)
  have cmp1: "Cube_tmin rcp_low (scene_cube demo_scene_centred) axis_ray
        < Cube_tmax rcp_low (scene_cube demo_scene_centred) axis_ray \<longleftrightarrow>
      Cube_tmin (\<lambda>d. 1 / d) (scene_cube demo_scene_centred) axis_ray
        < Cube_tmax (\<lambda>d. 1 / d) (scene_cube demo_scene_centred) axis_ray"
    by (simp add: cube_axis_defs axis_ray_def rcp_low_def)
  have cmp2: "Cube_tmin rcp_low (scene_cube demo_scene_centred) axis_ray < Finite (ray_t axis_ray) \<longleftrightarrow>
      Cube_tmin (\<lambda>d. 1 / d) (scene_cube demo_scene_centred) axis_ray < Finite (ray_t axis_ray)"
    by (simp add: cube_axis_defs axis_ray_def rcp_low_def)
  have pos: "Finite 0 < Cube_tmin (\<lambda>d. 1 / d) (scene_cube demo_scene_centred) axis_ray"
    by (simp add: cube_axis_defs axis_ray_def)
  have "record_hit axis_ray (9 / 2) 3 \<noteq> axis_ray"
    by (rule record_hit_neq) (simp add: axis_ray_def Ray_ctor_def)
  then have cube: "Cube_Intersect (scene_cube demo_scene_centred) axis_ray \<noteq> axis_ray"
    by (simp add: cube_hit_axis)
  note inst = IsOccluded_agrees_where_tests_coincide
      [of "scene_quad demo_scene 0" _ ball demo_scene rcp_low
        "scene_cube demo_scene_centred" demo_tmpl8]
  from occ inst [of ray_from_outside]
  have sph: "Sphere_Intersect ball ray_from_outside \<noteq> ray_from_outside"
    by simp
  from inside inst [of ray_from_centre]
  have dark: "\<not> Sphere_IsOccluded ball ray_from_centre"
    by simp
  from far lit inst [of ray_to_light]
  have lights: "FindNearest_lights ray_to_light \<noteq> ray_to_light"
    by simp
  from cmp0 cmp1 cmp2 pos cube inst [of axis_ray]
  have blocked: "Cube_IsOccluded rcp_low (scene_cube demo_scene_centred) axis_ray"
    by simp
  from cube_floor_clear sphere_floor_clear lights_floor_clear torus_floor_clear inst [of floor_ray]
  have open_floor: "\<not> Scene_IsOccluded demo_tmpl8 demo_scene floor_ray"
    by simp
  from cube_corner_clear sphere_corner_clear lights_corner_clear torus_corner_clear
    inst [of corner_ray]
  have open_corner: "\<not> Scene_IsOccluded demo_tmpl8 demo_scene corner_ray"
    by simp
  from occ outside sph inside dark far lit lights cmp0 cmp1 cmp2 pos cube blocked FindNearest_floor
    open_floor FindNearest_corner open_corner
  show ?thesis by (intro conjI)
qed

section \<open>The light sample\<close>

lemma RandomPointOnLight_r2_first_bucket:
  assumes "0 \<le> r0" and "r0 < 1 / 4"
  shows "lightIdx r0 = 0 \<and> RandomPointOnLight_r2 r0 = r0"
proof -
  from assms have "\<lfloor>r0 * 4\<rfloor> = 0" by (simp add: floor_eq_iff)
  with assms show ?thesis
    by (simp add: RandomPointOnLight_r2_def lightIdx_def c_int_def)
qed

lemma RandomPointOnLight_r2_range:
  assumes "0 \<le> r0" and "r0 < 1"
  shows "0 \<le> lightIdx r0 \<and> lightIdx r0 < 4 \<and>
         RandomPointOnLight_r2 r0 * (4 - of_int (lightIdx r0)) = 4 * r0 - of_int (lightIdx r0) \<and>
         RandomPointOnLight_r2 r0 * (4 - of_int (lightIdx r0)) < 1"
proof -
  define k where "k = \<lfloor>r0 * 4\<rfloor>"
  from assms have idx: "lightIdx r0 = k"
    by (simp add: lightIdx_def c_int_def k_def)
  from assms have lo: "0 \<le> k"
    by (simp add: k_def)
  from assms have hi: "k < 4"
    by (simp add: k_def floor_less_iff)
  have frac: "r0 * 4 < of_int k + 1"
    unfolding k_def by linarith
  define s where "s = 1 - real_of_int k * 0.25"
  from hi have "real_of_int k < 4" by simp
  then have s_ne: "s \<noteq> 0"
    by (simp add: s_def)
  have four: "4 - real_of_int k = 4 * s"
    by (simp add: s_def)
  have r2: "RandomPointOnLight_r2 r0 = (r0 - of_int k * 0.25) / s"
    by (simp add: RandomPointOnLight_r2_def idx Let_def s_def)
  have "RandomPointOnLight_r2 r0 * (4 - of_int k) = (r0 - of_int k * 0.25) / s * (4 * s)"
    by (simp only: r2 four)
  also have "\<dots> = 4 * (r0 - of_int k * 0.25)"
    using s_ne by simp
  also have "\<dots> = 4 * r0 - of_int k"
    by simp
  finally have eq: "RandomPointOnLight_r2 r0 * (4 - of_int k) = 4 * r0 - of_int k" .
  from eq frac lo hi idx show ?thesis by simp
qed

text \<open>
  Claim C3. The light is \<open>quad[floor(4 * r0)]\<close>, but \<^verbatim>\<open>r2\<close> divides the remainder by
  \<open>1 - stratum\<close>, not by the width of the bucket. In the first bucket nothing is
  renormalized: at \<open>r0 = 1/5\<close> the code has \<open>r2 = 1/5\<close> where the bucket \<open>[0, 1/4)\<close>
  stretched to \<open>[0, 1)\<close> gives \<open>4/5\<close>, and the point is at \<open>x = -3/20\<close> on a light that
  spans \<open>-1/4 < x < 1/4\<close>.
\<close>

theorem RandomPointOnLight_first_bucket:
  "lightIdx (1 / 5) = 0 \<and> RandomPointOnLight_r2 (1 / 5) = 1 / 5 \<and>
   RandomPointOnLight demo_scene (1 / 5) 0 = Some (make_float3 (- 3 / 20) 0 (- 1 / 4))"
  by (simp add: RandomPointOnLight_def RandomPointOnLight_r2_def lightIdx_def c_int_def Let_def
      demo_scene_def TransformPosition_def mat4_Identity_def plus_float3_def minus_float3_def
      scaleR_float3_def)

section \<open>Direct illumination\<close>

lemma lights_height:
  assumes "lights_valmask ray"
  shows "fy (ray_O ray + lights_tq ray *\<^sub>R ray_D ray) = 1.5"
proof -
  from assms have "lights_tq ray \<noteq> 0"
    by (simp add: lights_valmask_def)
  then have "fy (ray_D ray) \<noteq> 0"
    by (auto simp: lights_tq_def)
  then show ?thesis
    by (simp add: lights_tq_def plus_float3_def scaleR_float3_def field_simps)
qed

text \<open>
  Claim C4. With four lights, \<^verbatim>\<open>GetLightPos\<close> is the origin for every scene, so
  \<^verbatim>\<open>DirectIllumination\<close> takes its direction \<open>L\<close> and its distance from \<open>-I\<close> and casts its
  shadow ray along it; every point where the light test of \<^verbatim>\<open>FindNearest\<close> and
  \<^verbatim>\<open>IsOccluded\<close> finds a light is at height 1.5, which the origin is not.
\<close>

theorem GetLightPos_origin:
  "GetLightPos scn = make_float3 0 0 0 \<and>
   DirectIllumination E scn I N =
     (let distance = length3 (- I);
          L = (1 / distance) *\<^sub>R (- I)
      in if dot N L < EPSILON E then make_float3 0 0 0
         else if Scene_IsOccluded E scn
                   (Ray_ctor (I + EPSILON E *\<^sub>R L) L (distance - 2 * EPSILON E) (- 1))
           then make_float3 0 0 0
         else dot N L *\<^sub>R ((1 / (distance * distance)) *\<^sub>R make_float3 24 24 22)) \<and>
   (lights_hitmask ray i \<and> lights_valmask ray \<longrightarrow>
      fy (ray_O ray + lights_tq ray *\<^sub>R ray_D ray) = 1.5)"
proof -
  have "float3_splat 0 - I = - I"
    by (simp add: float3_splat_def minus_float3_def uminus_float3_def)
  then show ?thesis
    by (simp add: GetLightPos_def DirectIllumination_def GetLightColor_def Let_def lights_height)
      (simp add: float3_splat_def)
qed

theorem GetLightPos_origin_witness:
  "lights_hitmask ray_to_light 2 \<and> lights_valmask ray_to_light \<and>
   fy (ray_O ray_to_light + lights_tq ray_to_light *\<^sub>R ray_D ray_to_light) = 1.5 \<and>
   fy (GetLightPos demo_scene) = 0"
proof -
  have m: "lights_hitmask ray_to_light 2 \<and> lights_valmask ray_to_light"
    by (simp add: lights_hitmask_def lights_valmask_def lights_tq_def lane_def ray_to_light_def
        Ray_new_def Ray_ctor_def)
  with GetLightPos_origin [of demo_scene demo_tmpl8 shading_point shading_point ray_to_light 2]
  show ?thesis by simp
qed

text \<open>
  Claim C8. With \<open>L\<close> the unit vector from \<open>I\<close> to the light position and \<open>distance\<close> the
  length of that way: \<^verbatim>\<open>DirectIllumination\<close> is zero when \<open>dot N L < EPSILON\<close>; otherwise the
  shadow ray has the origin \<open>I + EPSILON * L\<close>, the direction \<open>L\<close> and the distance
  \<open>distance - 2 * EPSILON\<close>, the result is zero when the scene occludes that ray, and
  \<open>lightColor / distance\<^sup>2 * dot N L\<close> when it does not.
\<close>

theorem DirectIllumination_cases:
  assumes "distance = length3 (GetLightPos scn - I)"
    and "L = (1 / distance) *\<^sub>R (GetLightPos scn - I)"
    and "s = Ray_ctor (I + EPSILON E *\<^sub>R L) L (distance - 2 * EPSILON E) (- 1)"
  shows "(dot N L < EPSILON E \<longrightarrow> DirectIllumination E scn I N = make_float3 0 0 0) \<and>
         (\<not> dot N L < EPSILON E \<and> Scene_IsOccluded E scn s \<longrightarrow>
            DirectIllumination E scn I N = make_float3 0 0 0) \<and>
         (\<not> dot N L < EPSILON E \<and> \<not> Scene_IsOccluded E scn s \<longrightarrow>
            DirectIllumination E scn I N = (dot N L / (distance * distance)) *\<^sub>R GetLightColor scn) \<and>
         ray_O s = I + EPSILON E *\<^sub>R L \<and> ray_D s = L \<and> ray_t s = distance - 2 * EPSILON E"
  using assms
  by (simp add: DirectIllumination_def Let_def float3_splat_def Ray_ctor_def scaleR_float3_def)

theorem DirectIllumination_cases_witness:
  "dot (make_float3 0 (- 1) 0) (make_float3 (2 / 3) (1 / 3) (2 / 3)) < EPSILON demo_tmpl8 \<and>
   DirectIllumination demo_tmpl8 demo_scene shading_point (make_float3 0 (- 1) 0) = make_float3 0 0 0 \<and>
   \<not> dot (make_float3 0 1 0) (make_float3 (2 / 3) (1 / 3) (2 / 3)) < EPSILON demo_tmpl8 \<and>
   Scene_IsOccluded demo_tmpl8 demo_scene_centred shadow_ray \<and>
   DirectIllumination demo_tmpl8 demo_scene_centred shading_point (make_float3 0 1 0) = make_float3 0 0 0 \<and>
   \<not> Scene_IsOccluded demo_tmpl8 demo_scene shadow_ray \<and>
   DirectIllumination demo_tmpl8 demo_scene shading_point (make_float3 0 1 0)
     = make_float3 (8 / 9) (8 / 9) (22 / 27)"
proof -
  let ?L = "make_float3 (2 / 3) (1 / 3) (2 / 3)"
  have d: "3 = length3 (GetLightPos scn - shading_point)" for scn
    by (simp add: length3_def GetLightPos_def shading_point_def float3_ops sqrt_9)
  have L: "?L = (1 / 3) *\<^sub>R (GetLightPos scn - shading_point)" for scn
    by (simp add: GetLightPos_def shading_point_def float3_ops)
  have s: "shadow_ray = Ray_ctor (shading_point + EPSILON demo_tmpl8 *\<^sub>R ?L) ?L
      (3 - 2 * EPSILON demo_tmpl8) (- 1)"
    by (simp add: shadow_ray_def)
  have behind: "dot (make_float3 0 (- 1) 0) ?L < EPSILON demo_tmpl8"
    by (simp add: dot_def demo_tmpl8_def)
  have facing: "\<not> dot (make_float3 0 1 0) ?L < EPSILON demo_tmpl8"
    by (simp add: dot_def demo_tmpl8_def)
  have colour: "(dot (make_float3 0 1 0) ?L / (3 * 3)) *\<^sub>R GetLightColor demo_scene
      = make_float3 (8 / 9) (8 / 9) (22 / 27)"
    by (simp add: dot_def GetLightColor_def scaleR_float3_def)
  from behind DirectIllumination_cases [OF d L s, of "make_float3 0 (- 1) 0" demo_scene]
  have c1: "DirectIllumination demo_tmpl8 demo_scene shading_point (make_float3 0 (- 1) 0)
      = make_float3 0 0 0"
    by blast
  from facing shadow_ray_blocked
    DirectIllumination_cases [OF d L s, of "make_float3 0 1 0" demo_scene_centred]
  have c2: "DirectIllumination demo_tmpl8 demo_scene_centred shading_point (make_float3 0 1 0)
      = make_float3 0 0 0"
    by blast
  from facing shadow_ray_clear
    DirectIllumination_cases [OF d L s, of "make_float3 0 1 0" demo_scene]
  have c3: "DirectIllumination demo_tmpl8 demo_scene shading_point (make_float3 0 1 0)
      = (dot (make_float3 0 1 0) ?L / (3 * 3)) *\<^sub>R GetLightColor demo_scene"
    by blast
  from behind facing shadow_ray_blocked shadow_ray_clear c1 c2 c3 colour
  show ?thesis by simp
qed

section \<open>Recursion ends in zero radiance\<close>

text \<open>
  Claim C5. \<^verbatim>\<open>Trace\<close> returns the zero vector when the ray has \<open>objIdx = -1\<close> after
  \<^verbatim>\<open>FindNearest\<close>, and when \<open>depth\<close> is above \<^verbatim>\<open>MAXDEPTH\<close>, whatever the ray hit; at
  \<open>MAXDEPTH + 1\<close> in particular.
\<close>

theorem Trace_zero_radiance:
  "(ray_objIdx (FindNearest scn ray) = - 1 \<longrightarrow> Trace E scn ray depth = Some (make_float3 0 0 0)) \<and>
   (depth > MAXDEPTH E \<longrightarrow> Trace E scn ray depth = Some (make_float3 0 0 0)) \<and>
   Trace E scn ray (MAXDEPTH E + 1) = Some (make_float3 0 0 0)"
proof (intro conjI impI)
  assume "ray_objIdx (FindNearest scn ray) = - 1"
  then show "Trace E scn ray depth = Some (make_float3 0 0 0)"
    by (subst Trace.simps) (simp add: Let_def float3_splat_def)
next
  assume "depth > MAXDEPTH E"
  then show "Trace E scn ray depth = Some (make_float3 0 0 0)"
    by (subst Trace.simps) (simp add: Let_def float3_splat_def)
next
  show "Trace E scn ray (MAXDEPTH E + 1) = Some (make_float3 0 0 0)"
    by (subst Trace.simps) (simp add: Let_def float3_splat_def)
qed

theorem Trace_zero_radiance_witness:
  "ray_objIdx (FindNearest demo_scene escaping_ray) = - 1 \<and>
   Trace demo_tmpl8 demo_scene escaping_ray 0 = Some (make_float3 0 0 0) \<and>
   ray_objIdx (FindNearest demo_scene floor_ray) = 6 \<and>
   5 > MAXDEPTH demo_tmpl8 \<and>
   Trace demo_tmpl8 demo_scene floor_ray 5 = Some (make_float3 0 0 0)"
proof -
  have esc: "ray_objIdx (FindNearest demo_scene escaping_ray) = - 1"
    by (simp only: FindNearest_escaping) (simp add: escaping_ray_def Ray_new_def Ray_ctor_def)
  have floor: "ray_objIdx (FindNearest demo_scene floor_ray) = 6"
    by (simp only: FindNearest_floor) (simp add: record_hit_def)
  have deep: "5 > MAXDEPTH demo_tmpl8"
    by (simp add: demo_tmpl8_def)
  from esc have t1: "Trace demo_tmpl8 demo_scene escaping_ray 0 = Some (make_float3 0 0 0)"
    using Trace_zero_radiance [of demo_scene escaping_ray demo_tmpl8 0] by blast
  from deep have t2: "Trace demo_tmpl8 demo_scene floor_ray 5 = Some (make_float3 0 0 0)"
    using Trace_zero_radiance [of demo_scene floor_ray demo_tmpl8 5] by blast
  from esc floor deep t1 t2 show ?thesis by blast
qed

section \<open>Normals face the ray\<close>

lemma GetNormal_N_valid:
  assumes "0 \<le> objIdx" and "objIdx \<le> 10"
  shows "\<exists>N. GetNormal_N scn objIdx I = Some N"
proof -
  from assms have "objIdx = 0 \<or> objIdx = 1 \<or> objIdx = 2 \<or> objIdx = 3 \<or> objIdx = 4 \<or> objIdx = 5
      \<or> objIdx = 6 \<or> objIdx = 7 \<or> objIdx = 8 \<or> objIdx = 9 \<or> objIdx = 10"
    by arith
  then show ?thesis
    by (auto simp: GetNormal_N_def float3_set_def signed_divide_int_def)
qed

lemma faces_ray: "dot (if dot N wo > 0 then - N else N) wo \<le> 0"
  by (simp add: dot_uminus_left)

text \<open>
  Claim C6. For an identifier from \<open>-1\<close> to \<open>10\<close>, \<^verbatim>\<open>Scene::GetNormal\<close> returns a normal
  \<open>N\<close> with \<open>dot N wo \<le> 0\<close>; unless the identifier is \<open>-1\<close>, it is the normal of the
  primitive, negated exactly when its dot product with \<open>wo\<close> is positive.
\<close>

theorem GetNormal_faces_ray:
  assumes "- 1 \<le> objIdx" and "objIdx \<le> 10"
  shows "\<exists>N. GetNormal scn objIdx I wo = Some N \<and> dot N wo \<le> 0 \<and>
           (objIdx = - 1 \<or>
            (\<exists>N0. GetNormal_N scn objIdx I = Some N0 \<and> N = (if dot N0 wo > 0 then - N0 else N0)))"
proof (cases "objIdx = - 1")
  case True
  then show ?thesis
    by (simp add: GetNormal_def dot_def float3_splat_def)
next
  case False
  with assms have "0 \<le> objIdx" by simp
  with assms obtain N0 where "GetNormal_N scn objIdx I = Some N0"
    using GetNormal_N_valid by blast
  with False show ?thesis
    by (simp add: GetNormal_def faces_ray)
qed

theorem GetNormal_faces_ray_witness:
  "(- 1 :: int) \<le> 6 \<and> (6 :: int) \<le> 10 \<and>
   GetNormal demo_scene 6 (make_float3 0 (- 1) 0) (make_float3 0 1 0) = Some (make_float3 0 (- 1) 0) \<and>
   GetNormal demo_scene 7 (make_float3 0 2 0) (make_float3 0 1 0) = Some (make_float3 0 (- 1) 0) \<and>
   dot (make_float3 0 (- 1) 0) (make_float3 0 1 0) \<le> 0"
  using GetNormal_faces_ray [of 6 demo_scene "make_float3 0 (- 1) 0" "make_float3 0 1 0"]
  by (simp add: GetNormal_def GetNormal_N_def float3_set_def float3_splat_def signed_divide_int_def
      dot_def uminus_float3_def)

section \<open>Materials\<close>

text \<open>
  Claim C7. For every identifier and point the reflectivity and the refractivity add up
  to at most 1, so that \<open>diffuseness = 1 - (reflectivity + refractivity)\<close> is not negative,
  and the three add up to 1.
\<close>

theorem reflectivity_refractivity_le_one:
  "GetReflectivity scn objIdx I + GetRefractivity scn objIdx I \<le> 1 \<and>
   0 \<le> 1 - (GetReflectivity scn objIdx I + GetRefractivity scn objIdx I) \<and>
   (1 - (GetReflectivity scn objIdx I + GetRefractivity scn objIdx I))
     + GetReflectivity scn objIdx I + GetRefractivity scn objIdx I = 1"
  by (simp add: GetReflectivity_def GetRefractivity_def)

section \<open>The animation clock\<close>

text \<open>
  Claim C9. \<^verbatim>\<open>SetTime( t )\<close> twice is \<^verbatim>\<open>SetTime( t )\<close> once; the scene after
  \<^verbatim>\<open>SetTime( t )\<close> does not depend on an earlier \<^verbatim>\<open>SetTime( t' )\<close>, whatever the order of
  \<open>t\<close> and \<open>t'\<close>; and the clock, the two matrices of the cube and the position of the ball
  after it depend on \<open>t\<close> only, not on the scene it was called on.
\<close>

theorem SetTime_idempotent:
  "SetTime E t (SetTime E t scn) = SetTime E t scn \<and>
   SetTime E t (SetTime E t' scn) = SetTime E t scn \<and>
   scene_animTime (SetTime E t scn) = t \<and>
   cube_M (scene_cube (SetTime E t scn)) = cube_M (scene_cube (SetTime E t scn')) \<and>
   cube_invM (scene_cube (SetTime E t scn)) = cube_invM (scene_cube (SetTime E t scn')) \<and>
   sphere_pos (scene_sphere (SetTime E t scn)) = sphere_pos (scene_sphere (SetTime E t scn'))"
  by (simp add: SetTime_def Let_def)

section \<open>No hit\<close>

text \<open>
  Claim C10. With the identifier \<open>-1\<close>, \<^verbatim>\<open>Scene::GetNormal\<close> and \<^verbatim>\<open>Scene::GetAlbedo\<close>
  return the zero vector, at every point; they read no array.
\<close>

theorem GetNormal_GetAlbedo_no_hit:
  "GetNormal scn (- 1) I wo = Some (make_float3 0 0 0) \<and>
   GetAlbedo E scn (- 1) I = Some (make_float3 0 0 0)"
  by (simp add: GetNormal_def GetAlbedo_def float3_splat_def)

end
